theory Spec2Isabelle
  imports Main "HOL-Library.Word"
begin

unbundle bit_operations_syntax

section \<open>Machine integers\<close>

type_synonym u8 = "8 word"
type_synonym u16 = "16 word"
type_synonym u32 = "32 word"
type_synonym u64 = "64 word"

section \<open>video\_format.h\<close>

text \<open>\<open>enum video_log2_bpp\<close>: \<open>VIDEO_BPP8 = 3\<close>, then 4 and 5.\<close>

datatype video_log2_bpp = VIDEO_BPP8 | VIDEO_BPP16 | VIDEO_BPP32

fun video_log2_bpp_val :: "video_log2_bpp \<Rightarrow> nat" where
  "video_log2_bpp_val VIDEO_BPP8 = 3"
| "video_log2_bpp_val VIDEO_BPP16 = 4"
| "video_log2_bpp_val VIDEO_BPP32 = 5"

text \<open>\<open>#define VNBYTES(bpix) ((1 << (bpix)) / 8)\<close>, in \<open>int\<close>.\<close>

definition VNBYTES :: "video_log2_bpp \<Rightarrow> int" where
  "VNBYTES bpix = push_bit (video_log2_bpp_val bpix) 1 div 8"

text \<open>\<open>struct video_rgb\<close>, always 8 bits per component.\<close>

record video_rgb =
  rgb_r :: u8
  rgb_g :: u8
  rgb_b :: u8

text \<open>
  \<open>enum video_format\<close>. \<open>VIDEO_XRGB8888_BE\<close> is declared equal to \<open>VIDEO_BGRX8888\<close>,
  so it is the same value under a second name.
\<close>

datatype video_format =
    VIDEO_DEFAULT
  | VIDEO_RGB332
  | VIDEO_RGB565
  | VIDEO_RGB565_BE
  | VIDEO_XRGB8888
  | VIDEO_BGRX8888
  | VIDEO_XBGR8888
  | VIDEO_RGBA8888
  | VIDEO_XRGB2101010
  | VIDEO_XRGB2101010_BE
  | VIDEO_FMT_END

abbreviation VIDEO_XRGB8888_BE :: video_format where
  "VIDEO_XRGB8888_BE \<equiv> VIDEO_BGRX8888"

text \<open>
  The byte-order helpers of \<open>compiler.h\<close> (outside this driver) are taken
  with the host byte order as a parameter: \<open>little_endian\<close> is \<open>True\<close> where the build
  defines \<open>__LITTLE_ENDIAN\<close>, \<open>False\<close> where it defines \<open>__BIG_ENDIAN\<close>.
\<close>

definition swab32 :: "u32 \<Rightarrow> u32" where
  "swab32 x =
     push_bit 24 (x AND 0xff) OR push_bit 8 (x AND 0xff00) OR
     drop_bit 8 (x AND 0xff0000) OR drop_bit 24 (x AND 0xff000000)"

definition cpu_to_le32 :: "bool \<Rightarrow> u32 \<Rightarrow> u32" where
  "cpu_to_le32 little_endian x = (if little_endian then x else swab32 x)"

definition cpu_to_be32 :: "bool \<Rightarrow> u32 \<Rightarrow> u32" where
  "cpu_to_be32 little_endian x = (if little_endian then swab32 x else x)"

text \<open>
  The layout switch of \<open>video_rgb_to_pixel32\<close>. Each \<open>uint8_t\<close> component is promoted
  and shifted, and the result is stored in the \<open>unsigned int val\<close>; the model shifts in
  32 bits. \<open>VIDEO_DEFAULT\<close> shares the \<open>VIDEO_XRGB8888\<close> label on a little-endian build
  and the \<open>VIDEO_BGRX8888\<close> label on a big-endian one. The formats without a label
  leave \<open>val = 0\<close>.
\<close>

fun pixel32_layout :: "bool \<Rightarrow> video_format \<Rightarrow> video_rgb \<Rightarrow> u32" where
  "pixel32_layout little_endian VIDEO_DEFAULT rgb =
     (if little_endian
      then push_bit 16 (ucast (rgb_r rgb)) OR push_bit 8 (ucast (rgb_g rgb)) OR ucast (rgb_b rgb)
      else push_bit 24 (ucast (rgb_b rgb)) OR push_bit 8 (ucast (rgb_g rgb)) OR
           push_bit 8 (ucast (rgb_r rgb)))"
| "pixel32_layout little_endian VIDEO_XRGB8888 rgb =
     push_bit 16 (ucast (rgb_r rgb)) OR push_bit 8 (ucast (rgb_g rgb)) OR ucast (rgb_b rgb)"
| "pixel32_layout little_endian VIDEO_BGRX8888 rgb =
     push_bit 24 (ucast (rgb_b rgb)) OR push_bit 8 (ucast (rgb_g rgb)) OR
     push_bit 8 (ucast (rgb_r rgb))"
| "pixel32_layout little_endian VIDEO_XBGR8888 rgb =
     push_bit 16 (ucast (rgb_b rgb)) OR push_bit 8 (ucast (rgb_g rgb)) OR ucast (rgb_b rgb)"
| "pixel32_layout little_endian VIDEO_RGBA8888 rgb =
     push_bit 24 (ucast (rgb_r rgb)) OR push_bit 16 (ucast (rgb_g rgb)) OR
     push_bit 8 (ucast (rgb_b rgb)) OR 0xff"
| "pixel32_layout little_endian VIDEO_XRGB2101010 rgb =
     push_bit 22 (ucast (rgb_r rgb)) OR push_bit 12 (ucast (rgb_g rgb)) OR
     push_bit 2 (ucast (rgb_b rgb))"
| "pixel32_layout little_endian VIDEO_XRGB2101010_BE rgb =
     push_bit 22 (ucast (rgb_r rgb)) OR push_bit 12 (ucast (rgb_g rgb)) OR
     push_bit 2 (ucast (rgb_b rgb))"
| "pixel32_layout little_endian _ rgb = 0"

text \<open>\<open>video_rgb_to_pixel32\<close>: the layout, then the byte order of the format.\<close>

definition video_rgb_to_pixel32 :: "bool \<Rightarrow> video_format \<Rightarrow> video_rgb \<Rightarrow> u32" where
  "video_rgb_to_pixel32 little_endian format rgb =
     (let val = pixel32_layout little_endian format rgb
      in case format of
           VIDEO_XRGB2101010_BE \<Rightarrow> cpu_to_be32 little_endian val
         | _ \<Rightarrow> cpu_to_le32 little_endian val)"

section \<open>The virtio-gpu wire protocol\<close>

text \<open>
  Modelled from the spec: the header \<open>virtio_gpu.h\<close> is not among the sources. The spec
  names the six commands the driver sends and the two responses it accepts, the fence
  flag, the bound \<open>N\<close> on scanout descriptors and the header layout
  \<open>{type:32, flags:32, fence_id:64, context_id:32, ring_index:8+pad}\<close>. The numbers are
  those of the virtio GPU device (commands from \<open>0x0100\<close>, successful responses from
  \<open>0x1100\<close>, error responses from \<open>0x1200\<close>, 16 scanouts, fence flag bit 0).
\<close>

datatype virtio_gpu_ctrl_type =
    VIRTIO_GPU_CMD_GET_DISPLAY_INFO
  | VIRTIO_GPU_CMD_RESOURCE_CREATE_2D
  | VIRTIO_GPU_CMD_SET_SCANOUT
  | VIRTIO_GPU_CMD_RESOURCE_FLUSH
  | VIRTIO_GPU_CMD_TRANSFER_TO_HOST_2D
  | VIRTIO_GPU_CMD_RESOURCE_ATTACH_BACKING
  | VIRTIO_GPU_RESP_OK_NODATA
  | VIRTIO_GPU_RESP_OK_DISPLAY_INFO
  | VIRTIO_GPU_RESP_ERR_UNSPEC

fun ctrl_type_val :: "virtio_gpu_ctrl_type \<Rightarrow> int" where
  "ctrl_type_val VIRTIO_GPU_CMD_GET_DISPLAY_INFO = 0x0100"
| "ctrl_type_val VIRTIO_GPU_CMD_RESOURCE_CREATE_2D = 0x0101"
| "ctrl_type_val VIRTIO_GPU_CMD_SET_SCANOUT = 0x0103"
| "ctrl_type_val VIRTIO_GPU_CMD_RESOURCE_FLUSH = 0x0104"
| "ctrl_type_val VIRTIO_GPU_CMD_TRANSFER_TO_HOST_2D = 0x0105"
| "ctrl_type_val VIRTIO_GPU_CMD_RESOURCE_ATTACH_BACKING = 0x0106"
| "ctrl_type_val VIRTIO_GPU_RESP_OK_NODATA = 0x1100"
| "ctrl_type_val VIRTIO_GPU_RESP_OK_DISPLAY_INFO = 0x1101"
| "ctrl_type_val VIRTIO_GPU_RESP_ERR_UNSPEC = 0x1200"

definition VIRTIO_GPU_MAX_SCANOUTS :: nat where
  "VIRTIO_GPU_MAX_SCANOUTS = 16"

definition VIRTIO_GPU_FLAG_FENCE :: u32 where
  "VIRTIO_GPU_FLAG_FENCE = push_bit 0 1"

definition VIRTIO_GPU_FORMAT_B8G8R8X8_UNORM :: u32 where
  "VIRTIO_GPU_FORMAT_B8G8R8X8_UNORM = 2"

definition EINVAL :: int where
  "EINVAL = 22"

text \<open>
  The wire structures hold each field as the device decodes it: \<open>cpu_to_virtio32\<close>,
  \<open>cpu_to_virtio64\<close> and \<open>virtio32_to_cpu\<close> (from \<open>virtio.h\<close>) convert between the
  CPU's and the device's byte order and cancel against the device's own decoding.
\<close>

record virtio_gpu_ctrl_hdr =
  hdr_type :: u32
  hdr_flags :: u32
  hdr_fence_id :: u64
  hdr_ctx_id :: u32
  hdr_ring_idx :: u8

record virtio_gpu_rect =
  rect_x :: u32
  rect_y :: u32
  rect_width :: u32
  rect_height :: u32

record virtio_gpu_display_one =
  disp_r :: virtio_gpu_rect
  disp_enabled :: u32
  disp_flags :: u32

text \<open>
  \<open>struct virtio_gpu_resp_display_info\<close>: a header and the array \<open>pmodes\<close>, read at
  the indices below \<open>VIRTIO_GPU_MAX_SCANOUTS\<close> only. A response that is a bare header
  uses \<open>resp_hdr\<close> alone.
\<close>

record virtio_gpu_resp_display_info =
  resp_hdr :: virtio_gpu_ctrl_hdr
  pmodes :: "nat \<Rightarrow> virtio_gpu_display_one"

text \<open>The request structures after their header, one constructor per structure.\<close>

datatype virtio_gpu_cmd =
    Get_display_info
  | Resource_create_2d (c2d_resource_id: u32) (c2d_format: u32) (c2d_width: u32) (c2d_height: u32)
  | Resource_attach_backing (ab_resource_id: u32) (ab_nr_entries: u32)
      (ab_addr: u64) (ab_length: u32) (ab_padding: u32)
  | Set_scanout (ss_r: virtio_gpu_rect) (ss_scanout_id: u32) (ss_resource_id: u32)
  | Transfer_to_host_2d (th_r: virtio_gpu_rect) (th_offset: u64) (th_resource_id: u32)
      (th_padding: u32)
  | Resource_flush (rf_r: virtio_gpu_rect) (rf_resource_id: u32) (rf_padding: u32)

text \<open>\<open>sizeof\<close> of the structures, from the layout of the header and of the fields above.\<close>

definition sizeof_ctrl_hdr :: nat where "sizeof_ctrl_hdr = 24"
definition sizeof_resp_display_info :: nat where
  "sizeof_resp_display_info = sizeof_ctrl_hdr + VIRTIO_GPU_MAX_SCANOUTS * 24"
definition sizeof_resource_create_2d :: nat where "sizeof_resource_create_2d = sizeof_ctrl_hdr + 16"
definition sizeof_resource_attach_backing :: nat where
  "sizeof_resource_attach_backing = sizeof_ctrl_hdr + 8"
definition sizeof_mem_entry :: nat where "sizeof_mem_entry = 16"
definition sizeof_set_scanout :: nat where "sizeof_set_scanout = sizeof_ctrl_hdr + 24"
definition sizeof_transfer_to_host_2d :: nat where
  "sizeof_transfer_to_host_2d = sizeof_ctrl_hdr + 32"
definition sizeof_resource_flush :: nat where "sizeof_resource_flush = sizeof_ctrl_hdr + 24"

section \<open>The driver's surroundings\<close>

text \<open>
  A descriptor chain as \<open>virtqueue_add\<close> receives it: the populated request (\<open>in_sg\<close>)
  and the length of the response buffer (\<open>out_sg\<close>).
\<close>

record virtio_sg_chain =
  sg_hdr :: virtio_gpu_ctrl_hdr
  sg_cmd :: virtio_gpu_cmd
  sg_in_length :: nat
  sg_out_length :: nat

text \<open>
  Modelled from the spec: the transport (\<open>virtqueue_add\<close>, \<open>virtqueue_kick\<close>,
  \<open>virtqueue_get_buf\<close>, \<open>virtio_find_vqs\<close>) is an external collaborator that "provides
  queue discovery, descriptor submission, device notification, and completion
  retrieval". What it and the device do in one request/response exchange is an
  \<open>exchange\<close>: the error number with which \<open>virtqueue_add\<close> refuses the chain (0 when it
  takes it; the call returns the negated number), what the successive calls of
  \<open>virtqueue_get_buf\<close> return (\<open>None\<close> for a null pointer, \<open>Some len\<close> for the used
  buffer with its length), and what the response buffer holds when the call is over (what
  the device wrote; the buffer is uninitialised before).
\<close>

record exchange =
  add_errno :: nat
  get_buf :: "nat \<Rightarrow> u32 option"
  out_buf :: virtio_gpu_resp_display_info

text \<open>The messages of \<open>log_debug\<close> and \<open>log_warning\<close>, with their arguments.\<close>

datatype log_msg =
    Dbg_virtqueue_add_failed int
  | Dbg_invalid_response_size u32 nat
  | Dbg_found_scanout nat
  | Dbg_transfer_to_host_2d_failed int
  | Dbg_resource_flush_failed int
  | Warn_no_framebuffer
  | Warn_find_vqs_failed
  | Warn_get_display_info_failed int
  | Warn_no_active_scanout
  | Warn_resource_create_2d_failed int
  | Warn_resource_attach_backing_failed int
  | Warn_set_scanout_failed int u32

text \<open>
  Everything outside the device's own structures: the exchanges to come, indexed by
  \<open>seq\<close>, the number of exchanges that are over; \<open>polls\<close>, the number of empty polls of
  the running exchange; the chains the queue has taken (\<open>avail\<close>) and the notifications
  sent (\<open>kicks\<close>); the log; the allocator (the addresses of the live buffers, and the
  next fresh address; \<open>malloc\<close> does not fail, as the driver assumes); what
  \<open>virtio_find_vqs\<close> returns, and the queue it hands out; and \<open>virt_to_phys\<close>.
\<close>

record machine =
  exchanges :: "nat \<Rightarrow> exchange"
  seq :: nat
  polls :: nat
  avail :: "virtio_sg_chain list"
  kicks :: nat
  console :: "log_msg list"
  live :: "nat list"
  brk :: nat
  find_vqs_ret :: int
  find_vqs_vq :: nat
  virt_to_phys :: "u64 \<Rightarrow> u64"

definition log_msg :: "log_msg \<Rightarrow> machine \<Rightarrow> machine" where
  "log_msg e m = m\<lparr>console := console m @ [e]\<rparr>"

definition malloc :: "nat \<Rightarrow> machine \<Rightarrow> nat option \<times> machine" where
  "malloc sz m = (Some (brk m), m\<lparr>live := brk m # live m, brk := Suc (brk m)\<rparr>)"

definition free :: "nat option \<Rightarrow> machine \<Rightarrow> machine" where
  "free p m = (case p of None \<Rightarrow> m | Some a \<Rightarrow> m\<lparr>live := remove1 a (live m)\<rparr>)"

definition virtqueue_add :: "virtio_sg_chain \<Rightarrow> machine \<Rightarrow> int \<times> machine" where
  "virtqueue_add chain m =
     (let e = exchanges m (seq m)
      in if add_errno e \<noteq> 0 then (- int (add_errno e), m\<lparr>seq := Suc (seq m), polls := 0\<rparr>)
         else (0, m\<lparr>avail := avail m @ [chain], polls := 0\<rparr>))"

definition virtqueue_kick :: "machine \<Rightarrow> machine" where
  "virtqueue_kick m = m\<lparr>kicks := Suc (kicks m)\<rparr>"

definition virtqueue_get_buf :: "machine \<Rightarrow> u32 option \<times> machine" where
  "virtqueue_get_buf m =
     (case get_buf (exchanges m (seq m)) (polls m) of
        None \<Rightarrow> (None, m\<lparr>polls := Suc (polls m)\<rparr>)
      | Some len \<Rightarrow> (Some len, m\<lparr>seq := Suc (seq m), polls := 0\<rparr>))"

section \<open>virtio\_gpu.c\<close>

text \<open>\<open>struct virtio_gpu_priv\<close>; \<open>vq\<close> is a pointer, \<open>None\<close> when null.\<close>

record virtio_gpu_priv =
  vq :: "nat option"
  scanout_res_id :: u32
  fence_id :: u64
  in_sync :: bool

text \<open>
  The fields of \<open>struct video_priv\<close> and \<open>struct video_uc_plat\<close> (from \<open>video.h\<close>) that
  the driver touches: the geometry, two \<open>ushort\<close> and the depth, and the framebuffer,
  an \<open>ulong\<close> address and an \<open>uint\<close> size.
\<close>

record video_priv =
  xsize :: u16
  ysize :: u16
  bpix :: video_log2_bpp

record video_uc_plat =
  plat_base :: u64
  plat_size :: u32

text \<open>
  A \<open>struct udevice\<close>, as far as \<open>dev_get_priv\<close>, \<open>dev_get_uclass_priv\<close> and
  \<open>dev_get_uclass_plat\<close> read it.
\<close>

record udevice =
  dev_priv :: virtio_gpu_priv
  dev_uclass_priv :: video_priv
  dev_uclass_plat :: video_uc_plat

text \<open>The build configuration: \<open>CONFIG_VAL(VIRTIO_GPU_SIZE_X)\<close> and \<open>..._Y\<close>.\<close>

record kconfig =
  VIRTIO_GPU_SIZE_X :: int
  VIRTIO_GPU_SIZE_Y :: int

subsection \<open>virtio\_gpu\_do\_req\<close>

text \<open>
  \<open>while (!virtqueue_get_buf(priv->vq, &len));\<close> The loop has no bound: where the
  device never returns the buffer it does not end, and the value is \<open>None\<close>.
\<close>

partial_function (option) wait_get_buf :: "machine \<Rightarrow> (u32 \<times> machine) option" where
  "wait_get_buf m =
     (case virtqueue_get_buf m of
        (None, m') \<Rightarrow> wait_get_buf m'
      | (Some len, m') \<Rightarrow> Some (len, m'))"

declare wait_get_buf.simps [code]

text \<open>
  The header that lines 39 to 48 write into the request, and the private data after
  \<open>priv->fence_id++\<close>.
\<close>

definition req_hdr :: "virtio_gpu_priv \<Rightarrow> virtio_gpu_ctrl_type \<Rightarrow> bool \<Rightarrow> virtio_gpu_ctrl_hdr" where
  "req_hdr priv type flush =
     \<lparr>hdr_type = word_of_int (ctrl_type_val type),
      hdr_flags = (if flush then VIRTIO_GPU_FLAG_FENCE else 0),
      hdr_fence_id = (if flush then fence_id priv else 0),
      hdr_ctx_id = 0,
      hdr_ring_idx = 0\<rparr>"

definition req_priv :: "virtio_gpu_priv \<Rightarrow> bool \<Rightarrow> virtio_gpu_priv" where
  "req_priv priv flush = (if flush then priv\<lparr>fence_id := fence_id priv + 1\<rparr> else priv)"

text \<open>
  \<open>virtio_gpu_do_req\<close> returns its \<open>int\<close>, the header it wrote into \<open>in\<close>, the
  contents of \<open>out\<close>, the device and the surroundings; \<open>None\<close> when it does not return.
\<close>

definition virtio_gpu_do_req ::
  "udevice \<Rightarrow> machine \<Rightarrow> virtio_gpu_ctrl_type \<Rightarrow> virtio_gpu_cmd \<Rightarrow> nat \<Rightarrow> nat \<Rightarrow> bool \<Rightarrow>
   (int \<times> virtio_gpu_ctrl_hdr \<times> virtio_gpu_resp_display_info \<times> udevice \<times> machine) option"
where
  "virtio_gpu_do_req dev m type in_cmd in_size out_size flush =
     (let priv = dev_priv dev;
          ctrl_hdr_in = req_hdr priv type flush;
          dev1 = dev\<lparr>dev_priv := req_priv priv flush\<rparr>;
          out = out_buf (exchanges m (seq m));
          (ret, m1) = virtqueue_add
            \<lparr>sg_hdr = ctrl_hdr_in, sg_cmd = in_cmd,
             sg_in_length = in_size, sg_out_length = out_size\<rparr> m
      in if ret \<noteq> 0
         then Some (ret, ctrl_hdr_in, out, dev1, log_msg (Dbg_virtqueue_add_failed ret) m1)
         else
           case wait_get_buf (virtqueue_kick m1) of
             None \<Rightarrow> None
           | Some (len, m2) \<Rightarrow>
               let m3 = (if out_size \<noteq> unat len
                         then log_msg (Dbg_invalid_response_size len out_size) m2 else m2)
               in Some (sint (hdr_type (resp_hdr out)), ctrl_hdr_in, out, dev1, m3))"

subsection \<open>virtio\_gpu\_bind\<close>

text \<open>
  The product is computed in \<open>int\<close> and stored in the \<open>uint\<close> field. The call of
  \<open>virtio_driver_features_init\<close> touches the parent device only.
\<close>

definition virtio_gpu_bind :: "kconfig \<Rightarrow> udevice \<Rightarrow> int \<times> udevice" where
  "virtio_gpu_bind cfg dev =
     (let plat = dev_uclass_plat dev;
          plat1 = plat\<lparr>plat_base := 0\<rparr>;
          plat2 = plat1\<lparr>plat_size :=
            word_of_int (VIRTIO_GPU_SIZE_X cfg * VIRTIO_GPU_SIZE_X cfg * VNBYTES VIDEO_BPP32)\<rparr>
      in (0, dev\<lparr>dev_uclass_plat := plat2\<rparr>))"

subsection \<open>virtio\_gpu\_video\_sync\<close>

definition set_in_sync :: "bool \<Rightarrow> udevice \<Rightarrow> udevice" where
  "set_in_sync v dev = dev\<lparr>dev_priv := (dev_priv dev)\<lparr>in_sync := v\<rparr>\<rparr>"

definition full_rect :: "video_priv \<Rightarrow> virtio_gpu_rect" where
  "full_rect uc_priv =
     \<lparr>rect_x = 0, rect_y = 0,
      rect_width = ucast (xsize uc_priv), rect_height = ucast (ysize uc_priv)\<rparr>"

definition virtio_gpu_video_sync :: "udevice \<Rightarrow> machine \<Rightarrow> (int \<times> udevice \<times> machine) option" where
  "virtio_gpu_video_sync dev m =
     (if in_sync (dev_priv dev) then Some (0, dev, m)
      else
        let dev1 = set_in_sync True dev;
            to_host_2d_in = Transfer_to_host_2d (full_rect (dev_uclass_priv dev1)) 0
                              (scanout_res_id (dev_priv dev1)) 0
        in case virtio_gpu_do_req dev1 m VIRTIO_GPU_CMD_TRANSFER_TO_HOST_2D to_host_2d_in
                  sizeof_transfer_to_host_2d sizeof_ctrl_hdr True of
             None \<Rightarrow> None
           | Some (ret, _, _, dev2, m2) \<Rightarrow>
               if ret \<noteq> ctrl_type_val VIRTIO_GPU_RESP_OK_NODATA
               then Some (- EINVAL, set_in_sync False dev2,
                          log_msg (Dbg_transfer_to_host_2d_failed ret) m2)
               else
                 let res_flush_in = Resource_flush (full_rect (dev_uclass_priv dev2))
                                      (scanout_res_id (dev_priv dev2)) 0
                 in (case virtio_gpu_do_req dev2 m2 VIRTIO_GPU_CMD_RESOURCE_FLUSH res_flush_in
                            sizeof_resource_flush sizeof_ctrl_hdr True of
                       None \<Rightarrow> None
                     | Some (ret, _, _, dev3, m3) \<Rightarrow>
                         if ret \<noteq> ctrl_type_val VIRTIO_GPU_RESP_OK_NODATA
                         then Some (- EINVAL, set_in_sync False dev3,
                                    log_msg (Dbg_resource_flush_failed ret) m3)
                         else Some (0, set_in_sync False dev3, m3)))"

subsection \<open>virtio\_gpu\_probe\<close>

text \<open>
  Modelled from the spec: \<open>ffs\<close> (the bit operations header is not among the sources)
  finds the lowest set bit, "lowest set bit first": its position counted from 1, and 0
  for a word without a set bit.
\<close>

definition ffs :: "u32 \<Rightarrow> int" where
  "ffs x = (case filter (bit x) [0..<32] of [] \<Rightarrow> 0 | i # _ \<Rightarrow> int i + 1)"

text \<open>
  \<open>virtio_find_vqs(dev, 1, &priv->vq)\<close>: the transport's answer, and the queue stored in
  the private data when the answer is not an error.
\<close>

definition virtio_find_vqs :: "udevice \<Rightarrow> machine \<Rightarrow> int \<times> udevice" where
  "virtio_find_vqs dev m =
     (find_vqs_ret m,
      if find_vqs_ret m < 0 then dev
      else dev\<lparr>dev_priv := (dev_priv dev)\<lparr>vq := Some (find_vqs_vq m)\<rparr>\<rparr>)"

text \<open>Lines 113 to 119: the loop over \<open>pmodes\<close> that builds \<open>scanout_mask\<close>.\<close>

function scan_pmodes ::
  "virtio_gpu_resp_display_info \<Rightarrow> nat \<Rightarrow> u32 \<Rightarrow> machine \<Rightarrow> u32 \<times> machine"
where
  "scan_pmodes disp_info_out i scanout_mask m =
     (if i < VIRTIO_GPU_MAX_SCANOUTS
      then
        let disp = pmodes disp_info_out i
        in if disp_enabled disp = 0
           then scan_pmodes disp_info_out (Suc i) scanout_mask m
           else scan_pmodes disp_info_out (Suc i) (scanout_mask OR push_bit i 1)
                  (log_msg (Dbg_found_scanout i) m)
      else (scanout_mask, m))"
  by pat_completeness auto
termination
  by (relation "measure (\<lambda>(d, i, k, m). VIRTIO_GPU_MAX_SCANOUTS - i)") auto

declare scan_pmodes.simps [simp del]

text \<open>
  The labels at the end of \<open>virtio_gpu_probe\<close>. Control falls from each label into the
  next; each frees its buffer when the pointer is not null.
\<close>

definition out_free_disp :: "int \<Rightarrow> nat option \<Rightarrow> machine \<Rightarrow> int \<times> machine" where
  "out_free_disp ret disp_info_out m =
     (ret, if disp_info_out \<noteq> None then free disp_info_out m else m)"

definition out_free_res_create_2d ::
  "int \<Rightarrow> nat option \<Rightarrow> nat option \<Rightarrow> machine \<Rightarrow> int \<times> machine" where
  "out_free_res_create_2d ret res_create_2d_in disp_info_out m =
     out_free_disp ret disp_info_out
       (if res_create_2d_in \<noteq> None then free res_create_2d_in m else m)"

definition out_free_res_buf ::
  "int \<Rightarrow> nat option \<Rightarrow> nat option \<Rightarrow> nat option \<Rightarrow> machine \<Rightarrow> int \<times> machine" where
  "out_free_res_buf ret res_buf_in res_create_2d_in disp_info_out m =
     out_free_res_create_2d ret res_create_2d_in disp_info_out
       (if res_buf_in \<noteq> None then free res_buf_in m else m)"

definition out_free_set_scanout ::
  "int \<Rightarrow> nat option \<Rightarrow> nat option \<Rightarrow> nat option \<Rightarrow> nat option \<Rightarrow> machine \<Rightarrow> int \<times> machine"
where
  "out_free_set_scanout ret set_scanout_in res_buf_in res_create_2d_in disp_info_out m =
     out_free_res_buf ret res_buf_in res_create_2d_in disp_info_out
       (if set_scanout_in \<noteq> None then free set_scanout_in m else m)"

text \<open>
  Lines 178 to 199: the loop over the set bits of \<open>scanout_mask\<close>. It returns whether it
  left through \<open>goto out_free_set_scanout\<close>, with \<open>ret\<close>. Each turn clears a set bit, so
  the number of set bits is the measure.
\<close>

definition clear_scanout :: "u32 \<Rightarrow> u32 \<Rightarrow> u32" where
  "clear_scanout scanout_mask active_scanout =
     scanout_mask AND NOT (push_bit (unat active_scanout) 1)"

definition active_of :: "u32 \<Rightarrow> u32" where
  "active_of scanout_mask = word_of_int (ffs scanout_mask - 1)"

function set_scanout_loop ::
  "udevice \<Rightarrow> machine \<Rightarrow> u32 \<Rightarrow> (bool \<times> int \<times> udevice \<times> machine) option"
where
  "set_scanout_loop dev m scanout_mask =
     (if scanout_mask \<noteq> 0
      then
        let active_scanout = active_of scanout_mask;
            set_scanout_in = Set_scanout (full_rect (dev_uclass_priv dev)) active_scanout
                               (scanout_res_id (dev_priv dev))
        in case virtio_gpu_do_req dev m VIRTIO_GPU_CMD_SET_SCANOUT set_scanout_in
                  sizeof_set_scanout sizeof_ctrl_hdr False of
             None \<Rightarrow> None
           | Some (ret, _, _, dev1, m1) \<Rightarrow>
               if ret \<noteq> ctrl_type_val VIRTIO_GPU_RESP_OK_NODATA
               then Some (True, - EINVAL, dev1,
                          log_msg (Warn_set_scanout_failed ret active_scanout) m1)
               else set_scanout_loop dev1 m1 (clear_scanout scanout_mask active_scanout)
      else Some (False, ctrl_type_val VIRTIO_GPU_RESP_OK_NODATA, dev, m))"
  by pat_completeness auto

text \<open>
  \<open>virtio_gpu_probe\<close>, in the order of the source: lines 177 to 216 (the scanouts),
  154 to 175 (the backing), 127 to 152 (the resource) and 91 to 125 (the queue and the
  display information). The pointers that are null when a label is reached are written
  \<open>None\<close>.
\<close>

definition probe_set_scanout ::
  "udevice \<Rightarrow> machine \<Rightarrow> u32 \<Rightarrow> (int \<times> udevice \<times> machine) option" where
  "probe_set_scanout dev m scanout_mask =
     (let (set_scanout_in, m1) = malloc sizeof_set_scanout m
      in case set_scanout_loop dev m1 scanout_mask of
           None \<Rightarrow> None
         | Some (failed, ret, dev2, m2) \<Rightarrow>
             if failed
             then (let (ret', m3) = out_free_set_scanout ret set_scanout_in None None None m2
                   in Some (ret', dev2, m3))
             else Some (0, dev2, free set_scanout_in m2))"

definition probe_attach_backing ::
  "udevice \<Rightarrow> machine \<Rightarrow> u32 \<Rightarrow> (int \<times> udevice \<times> machine) option" where
  "probe_attach_backing dev m scanout_mask =
     (let priv = dev_priv dev;
          plat = dev_uclass_plat dev;
          (res_buf_in, m1) = malloc (sizeof_resource_attach_backing + sizeof_mem_entry) m;
          res_attach_backing_in =
            Resource_attach_backing (scanout_res_id priv) 1
              (virt_to_phys m (plat_base plat)) (plat_size plat) 0
      in case virtio_gpu_do_req dev m1 VIRTIO_GPU_CMD_RESOURCE_ATTACH_BACKING
                res_attach_backing_in (sizeof_resource_attach_backing + sizeof_mem_entry)
                sizeof_ctrl_hdr False of
           None \<Rightarrow> None
         | Some (ret, _, _, dev2, m2) \<Rightarrow>
             if ret \<noteq> ctrl_type_val VIRTIO_GPU_RESP_OK_NODATA
             then (let (ret', m3) =
                         out_free_res_buf (- EINVAL) res_buf_in None None
                           (log_msg (Warn_resource_attach_backing_failed ret) m2)
                   in Some (ret', dev2, m3))
             else probe_set_scanout dev2 (free res_buf_in m2) scanout_mask)"

definition probe_resource_create_2d ::
  "kconfig \<Rightarrow> udevice \<Rightarrow> machine \<Rightarrow> u32 \<Rightarrow> (int \<times> udevice \<times> machine) option" where
  "probe_resource_create_2d cfg dev m scanout_mask =
     (let uc_priv = (dev_uclass_priv dev)
            \<lparr>xsize := word_of_int (VIRTIO_GPU_SIZE_X cfg),
             ysize := word_of_int (VIRTIO_GPU_SIZE_Y cfg),
             bpix := VIDEO_BPP32\<rparr>;
          priv = (dev_priv dev)\<lparr>scanout_res_id := 1\<rparr>;
          dev1 = dev\<lparr>dev_uclass_priv := uc_priv, dev_priv := priv\<rparr>;
          (res_create_2d_in_p, m1) = malloc sizeof_resource_create_2d m;
          res_create_2d_in =
            Resource_create_2d (scanout_res_id priv) VIRTIO_GPU_FORMAT_B8G8R8X8_UNORM
              (ucast (xsize uc_priv)) (ucast (ysize uc_priv))
      in case virtio_gpu_do_req dev1 m1 VIRTIO_GPU_CMD_RESOURCE_CREATE_2D res_create_2d_in
                sizeof_resource_create_2d sizeof_ctrl_hdr False of
           None \<Rightarrow> None
         | Some (ret, _, _, dev2, m2) \<Rightarrow>
             if ret \<noteq> ctrl_type_val VIRTIO_GPU_RESP_OK_NODATA
             then (let (ret', m3) =
                         out_free_res_create_2d (- EINVAL) res_create_2d_in_p None
                           (log_msg (Warn_resource_create_2d_failed ret) m2)
                   in Some (ret', dev2, m3))
             else probe_attach_backing dev2 (free res_create_2d_in_p m2) scanout_mask)"

definition virtio_gpu_probe ::
  "kconfig \<Rightarrow> udevice \<Rightarrow> machine \<Rightarrow> (int \<times> udevice \<times> machine) option" where
  "virtio_gpu_probe cfg dev m =
     (if plat_base (dev_uclass_plat dev) = 0
      then Some (- EINVAL, dev, log_msg Warn_no_framebuffer m)
      else
        let (ret, dev1) = virtio_find_vqs dev m
        in if ret < 0 then Some (ret, dev1, log_msg Warn_find_vqs_failed m)
           else
             let (disp_info_out_p, m1) = malloc sizeof_resp_display_info m
             in case virtio_gpu_do_req dev1 m1 VIRTIO_GPU_CMD_GET_DISPLAY_INFO
                       Get_display_info sizeof_ctrl_hdr sizeof_resp_display_info False of
                  None \<Rightarrow> None
                | Some (ret, _, disp_info_out, dev2, m2) \<Rightarrow>
                    if ret \<noteq> ctrl_type_val VIRTIO_GPU_RESP_OK_DISPLAY_INFO
                    then (let (ret', m3) =
                                out_free_disp (- EINVAL) disp_info_out_p
                                  (log_msg (Warn_get_display_info_failed ret) m2)
                          in Some (ret', dev2, m3))
                    else
                      let (scanout_mask, m3) = scan_pmodes disp_info_out 0 0 m2
                      in if scanout_mask = 0
                         then (let (ret', m4) =
                                     out_free_disp (- EINVAL) disp_info_out_p
                                       (log_msg Warn_no_active_scanout m3)
                               in Some (ret', dev2, m4))
                         else probe_resource_create_2d cfg dev2 (free disp_info_out_p m3)
                                scanout_mask)"

section \<open>Notions for the statements\<close>

text \<open>
  What \<open>virtio_gpu_do_req\<close> returns for an exchange that ends: the negated error number
  of \<open>virtqueue_add\<close>, or the type in the response header.
\<close>

definition exchange_ret :: "exchange \<Rightarrow> int" where
  "exchange_ret e =
     (if add_errno e \<noteq> 0 then - int (add_errno e) else sint (hdr_type (resp_hdr (out_buf e))))"

text \<open>The chain a call of \<open>virtio_gpu_do_req\<close> hands to the queue.\<close>

definition chain_of ::
  "udevice \<Rightarrow> virtio_gpu_ctrl_type \<Rightarrow> virtio_gpu_cmd \<Rightarrow> nat \<Rightarrow> nat \<Rightarrow> bool \<Rightarrow> virtio_sg_chain" where
  "chain_of dev type in_cmd in_size out_size flush =
     \<lparr>sg_hdr = req_hdr (dev_priv dev) type flush, sg_cmd = in_cmd,
      sg_in_length = in_size, sg_out_length = out_size\<rparr>"

text \<open>What no exchange changes in the surroundings.\<close>

definition same_surroundings :: "machine \<Rightarrow> machine \<Rightarrow> bool" where
  "same_surroundings m m' \<longleftrightarrow>
     exchanges m' = exchanges m \<and> live m' = live m \<and> brk m' = brk m \<and>
     virt_to_phys m' = virt_to_phys m \<and> find_vqs_ret m' = find_vqs_ret m \<and>
     find_vqs_vq m' = find_vqs_vq m"

text \<open>The indices of the scanouts a display-information response enables, in ascending order.\<close>

definition enabled_scanouts :: "virtio_gpu_resp_display_info \<Rightarrow> nat list" where
  "enabled_scanouts d =
     filter (\<lambda>i. disp_enabled (pmodes d i) \<noteq> 0) [0..<VIRTIO_GPU_MAX_SCANOUTS]"

text \<open>
  Bring-up gets as far as line 135, where it stores the resource id: the framebuffer is
  reserved, the queue is found, and the display information arrives with an enabled
  scanout.
\<close>

definition reaches_create_2d :: "udevice \<Rightarrow> machine \<Rightarrow> bool" where
  "reaches_create_2d dev m \<longleftrightarrow>
     plat_base (dev_uclass_plat dev) \<noteq> 0 \<and> \<not> find_vqs_ret m < 0 \<and>
     exchange_ret (exchanges m (seq m)) = ctrl_type_val VIRTIO_GPU_RESP_OK_DISPLAY_INFO \<and>
     enabled_scanouts (out_buf (exchanges m (seq m))) \<noteq> []"

text \<open>The chain that binds scanout \<open>i\<close> to the resource of the device, over the full screen.\<close>

definition set_scanout_chain :: "udevice \<Rightarrow> nat \<Rightarrow> virtio_sg_chain" where
  "set_scanout_chain dev i =
     chain_of dev VIRTIO_GPU_CMD_SET_SCANOUT
       (Set_scanout (full_rect (dev_uclass_priv dev)) (of_nat i) (scanout_res_id (dev_priv dev)))
       sizeof_set_scanout sizeof_ctrl_hdr False"

text \<open>
  The device as a bring-up that succeeds leaves it: the queue stored, the configured
  geometry at 32 bits per pixel, and resource id 1.
\<close>

definition probed :: "kconfig \<Rightarrow> udevice \<Rightarrow> machine \<Rightarrow> udevice" where
  "probed cfg dev m =
     dev\<lparr>dev_priv := (dev_priv dev)\<lparr>vq := Some (find_vqs_vq m), scanout_res_id := 1\<rparr>,
         dev_uclass_priv := (dev_uclass_priv dev)
           \<lparr>xsize := word_of_int (VIRTIO_GPU_SIZE_X cfg),
            ysize := word_of_int (VIRTIO_GPU_SIZE_Y cfg),
            bpix := VIDEO_BPP32\<rparr>\<rparr>"

text \<open>
  A sequence of calls of \<open>virtio_gpu_do_req\<close> on one device, each with its arguments;
  the result collects the headers the calls wrote into their requests.
\<close>

record req_call =
  call_type :: virtio_gpu_ctrl_type
  call_cmd :: virtio_gpu_cmd
  call_in_size :: nat
  call_out_size :: nat
  call_flush :: bool

fun do_reqs ::
  "udevice \<Rightarrow> machine \<Rightarrow> req_call list \<Rightarrow>
   (virtio_gpu_ctrl_hdr list \<times> udevice \<times> machine) option"
where
  "do_reqs dev m [] = Some ([], dev, m)"
| "do_reqs dev m (c # cs) =
     (case virtio_gpu_do_req dev m (call_type c) (call_cmd c) (call_in_size c)
             (call_out_size c) (call_flush c) of
        None \<Rightarrow> None
      | Some (ret, hdr, out, dev1, m1) \<Rightarrow>
          (case do_reqs dev1 m1 cs of
             None \<Rightarrow> None
           | Some (hs, dev2, m2) \<Rightarrow> Some (hdr # hs, dev2, m2)))"

text \<open>The fence ids of the fenced requests among the headers, in the order of the calls.\<close>

definition fence_ids :: "virtio_gpu_ctrl_hdr list \<Rightarrow> u64 list" where
  "fence_ids hs = map hdr_fence_id (filter (\<lambda>h. hdr_flags h = VIRTIO_GPU_FLAG_FENCE) hs)"

text \<open>The header of a request without a fence, of the given type.\<close>

definition plain_hdr :: "virtio_gpu_ctrl_type \<Rightarrow> virtio_gpu_ctrl_hdr" where
  "plain_hdr t =
     \<lparr>hdr_type = word_of_int (ctrl_type_val t), hdr_flags = 0, hdr_fence_id = 0,
      hdr_ctx_id = 0, hdr_ring_idx = 0\<rparr>"

text \<open>
  The bytes of the geometry the display subsystem reads from \<open>struct video_priv\<close>:
  width times height times the bytes of a pixel.
\<close>

definition geometry_bytes :: "video_priv \<Rightarrow> int" where
  "geometry_bytes uc_priv = uint (xsize uc_priv) * uint (ysize uc_priv) * VNBYTES (bpix uc_priv)"

section \<open>Sample inputs\<close>

text \<open>
  A device whose framebuffer is reserved, a device that answers every request after two
  empty polls, and surroundings in which nothing has happened yet.
\<close>

definition ex_hdr :: "u32 \<Rightarrow> virtio_gpu_ctrl_hdr" where
  "ex_hdr t = \<lparr>hdr_type = t, hdr_flags = 0, hdr_fence_id = 0, hdr_ctx_id = 0, hdr_ring_idx = 0\<rparr>"

definition ex_display :: "bool \<Rightarrow> virtio_gpu_display_one" where
  "ex_display en =
     \<lparr>disp_r = \<lparr>rect_x = 0, rect_y = 0, rect_width = 1280, rect_height = 1024\<rparr>,
      disp_enabled = (if en then 1 else 0), disp_flags = 0\<rparr>"

definition ex_exchange :: "u32 \<Rightarrow> u32 \<Rightarrow> (nat \<Rightarrow> bool) \<Rightarrow> exchange" where
  "ex_exchange t len en =
     \<lparr>add_errno = 0,
      get_buf = (\<lambda>k. if k < 2 then None else Some len),
      out_buf = \<lparr>resp_hdr = ex_hdr t, pmodes = (\<lambda>i. ex_display (en i))\<rparr>\<rparr>"

definition ex_machine :: "(nat \<Rightarrow> exchange) \<Rightarrow> machine" where
  "ex_machine xs =
     \<lparr>exchanges = xs, seq = 0, polls = 0, avail = [], kicks = 0, console = [], live = [],
      brk = 0, find_vqs_ret = 0, find_vqs_vq = 0, virt_to_phys = (\<lambda>a. a)\<rparr>"

definition ex_dev :: "bool \<Rightarrow> u32 \<Rightarrow> u64 \<Rightarrow> udevice" where
  "ex_dev syncing res fence =
     \<lparr>dev_priv = \<lparr>vq = None, scanout_res_id = res, fence_id = fence, in_sync = syncing\<rparr>,
      dev_uclass_priv = \<lparr>xsize = 0, ysize = 0, bpix = VIDEO_BPP8\<rparr>,
      dev_uclass_plat = \<lparr>plat_base = 0x80000000, plat_size = 6553600\<rparr>\<rparr>"

definition ex_cfg :: kconfig where
  "ex_cfg = \<lparr>VIRTIO_GPU_SIZE_X = 1280, VIRTIO_GPU_SIZE_Y = 1024\<rparr>"

text \<open>A configuration whose width is zero.\<close>

definition ex_cfg_zero_width :: kconfig where
  "ex_cfg_zero_width = \<lparr>VIRTIO_GPU_SIZE_X = 0, VIRTIO_GPU_SIZE_Y = 1024\<rparr>"

text \<open>
  A configuration whose height does not fit the 16 bits of \<open>ysize\<close> and is reported as
  1280, and one whose width squared times 4 does not fit the 32 bits of the size.
\<close>

definition ex_cfg_tall :: kconfig where
  "ex_cfg_tall = \<lparr>VIRTIO_GPU_SIZE_X = 1280, VIRTIO_GPU_SIZE_Y = 66816\<rparr>"

definition ex_cfg_wide :: kconfig where
  "ex_cfg_wide = \<lparr>VIRTIO_GPU_SIZE_X = 32768, VIRTIO_GPU_SIZE_Y = 0\<rparr>"

text \<open>
  A device that answers the successive requests with the given response types, then with
  \<open>OK_NODATA\<close>, and reports the listed scanouts as enabled.
\<close>

definition ex_enabled :: "nat list \<Rightarrow> nat \<Rightarrow> bool" where
  "ex_enabled xs i \<longleftrightarrow> i \<in> set xs"

definition ex_replies :: "u32 list \<Rightarrow> nat list \<Rightarrow> nat \<Rightarrow> exchange" where
  "ex_replies ts xs n =
     ex_exchange (if n < length ts then ts ! n else 0x1100) 24 (ex_enabled xs)"

text \<open>A fenced and an unfenced call.\<close>

definition ex_call :: "bool \<Rightarrow> req_call" where
  "ex_call flush =
     \<lparr>call_type = VIRTIO_GPU_CMD_RESOURCE_FLUSH,
      call_cmd = Resource_flush
        \<lparr>rect_x = 0, rect_y = 0, rect_width = 1280, rect_height = 1024\<rparr> 1 0,
      call_in_size = sizeof_resource_flush, call_out_size = sizeof_ctrl_hdr,
      call_flush = flush\<rparr>"

section \<open>The set bits of a mask\<close>

lemma set_bits_nonempty: "(x :: u32) \<noteq> 0 \<Longrightarrow> filter (bit x) [0..<32] \<noteq> []"
proof
  assume nz: "x \<noteq> 0" and e: "filter (bit x) [0..<32] = []"
  have "\<not> bit x n" for n
  proof (cases "n < 32")
    case True
    with e show ?thesis by (auto simp: filter_empty_conv)
  next
    case False
    then show ?thesis by (auto dest: bit_imp_le_length)
  qed
  then have "x = 0" by (simp add: bit_eq_iff)
  with nz show False by simp
qed

lemma active_of_hd:
  "filter (bit x) [0..<32] = i # rest \<Longrightarrow> unat (active_of x) = i"
proof -
  assume f: "filter (bit x) [0..<32] = i # rest"
  then have "i \<in> set (filter (bit x) [0..<32])" by simp
  then have "i < 32" by simp
  then have "unat (word_of_int (int i + 1 - 1) :: u32) = i" by (simp add: unat_of_nat)
  with f show ?thesis by (simp add: active_of_def ffs_def)
qed

lemma bit_clear_scanout:
  "bit (clear_scanout x a) n \<longleftrightarrow> bit x n \<and> n \<noteq> unat a"
  by (auto simp: clear_scanout_def bit_and_iff bit_not_iff bit_push_bit_iff bit_exp_iff
        dest: bit_imp_le_length)

lemma set_bits_clear:
  assumes "filter (bit x) [0..<32] = i # rest"
  shows "filter (bit (clear_scanout x (active_of x))) [0..<32] = rest"
proof -
  have a: "unat (active_of x) = i" using assms by (rule active_of_hd)
  have "filter (bit (clear_scanout x (active_of x))) [0..<32]
        = filter (\<lambda>n. bit x n \<and> n \<noteq> i) [0..<32]"
    by (rule filter_cong [OF refl]) (simp add: bit_clear_scanout a)
  also have "\<dots> = filter (\<lambda>n. n \<noteq> i) (filter (bit x) [0..<32])"
    by (simp add: conj_commute del: upt.simps)
  also have "\<dots> = filter (\<lambda>n. n \<noteq> i) rest" using assms by simp
  also have "\<dots> = rest"
  proof -
    have "distinct (filter (bit x) [0..<32])" by simp
    with assms have "i \<notin> set rest" by simp
    then show ?thesis by (auto simp: filter_id_conv)
  qed
  finally show ?thesis .
qed

lemma clear_scanout_fewer:
  "(x :: u32) \<noteq> 0 \<Longrightarrow>
   length (filter (bit (clear_scanout x (active_of x))) [0..<32])
   < length (filter (bit x) [0..<32])"
proof -
  assume "x \<noteq> 0"
  then obtain i rest where f: "filter (bit x) [0..<32] = i # rest"
    using set_bits_nonempty [of x] by (cases "filter (bit x) [0..<32]") auto
  from set_bits_clear [OF f] f show ?thesis by simp
qed

termination set_scanout_loop
  by (relation "measure (\<lambda>(dev, m, k). length (filter (bit k) [0..<32]))")
     (auto simp: clear_scanout_fewer)

declare set_scanout_loop.simps [simp del]

section \<open>The blocking exchange\<close>

lemma virtqueue_get_buf_env:
  "virtqueue_get_buf m = (r, m') \<Longrightarrow> exchanges m' = exchanges m"
  by (auto simp: virtqueue_get_buf_def split: option.splits)

lemma wait_get_buf_complete:
  "get_buf (exchanges m (seq m)) (polls m + k) = Some len \<Longrightarrow>
   (\<forall>j<k. get_buf (exchanges m (seq m)) (polls m + j) = None) \<Longrightarrow>
   wait_get_buf m = Some (len, m\<lparr>seq := Suc (seq m), polls := 0\<rparr>)"
proof (induction k arbitrary: m)
  case 0
  then show ?case
    by (subst wait_get_buf.simps) (simp add: virtqueue_get_buf_def)
next
  case (Suc k)
  let ?m = "m\<lparr>polls := Suc (polls m)\<rparr>"
  from Suc.prems(2) have n: "get_buf (exchanges m (seq m)) (polls m) = None"
    by (metis add.right_neutral zero_less_Suc)
  have "wait_get_buf ?m = Some (len, ?m\<lparr>seq := Suc (seq ?m), polls := 0\<rparr>)"
  proof (rule Suc.IH)
    show "get_buf (exchanges ?m (seq ?m)) (polls ?m + k) = Some len"
      using Suc.prems(1) by simp
    from Suc.prems(2) have "\<forall>j<k. get_buf (exchanges m (seq m)) (polls m + Suc j) = None"
      by auto
    then show "\<forall>j<k. get_buf (exchanges ?m (seq ?m)) (polls ?m + j) = None"
      by simp
  qed
  with n show ?case
    by (subst wait_get_buf.simps) (simp add: virtqueue_get_buf_def)
qed

lemma wait_get_buf_Some:
  assumes "wait_get_buf m = Some r"
  shows "(\<exists>k. get_buf (exchanges m (seq m)) (polls m + k) = Some (fst r)) \<and>
         snd r = m\<lparr>seq := Suc (seq m), polls := 0\<rparr>"
proof (rule wait_get_buf.raw_induct [OF _ assms])
  fix f m r
  assume IH: "\<And>x y. f x = Some y \<Longrightarrow>
                (\<exists>k. get_buf (exchanges x (seq x)) (polls x + k) = Some (fst y)) \<and>
                snd y = x\<lparr>seq := Suc (seq x), polls := 0\<rparr>"
    and step: "(case virtqueue_get_buf m of
                  (None, m') \<Rightarrow> f m'
                | (Some len, m') \<Rightarrow> Some (len, m')) = Some r"
  show "(\<exists>k. get_buf (exchanges m (seq m)) (polls m + k) = Some (fst r)) \<and>
        snd r = m\<lparr>seq := Suc (seq m), polls := 0\<rparr>"
  proof (cases "get_buf (exchanges m (seq m)) (polls m)")
    case None
    with step have "f (m\<lparr>polls := Suc (polls m)\<rparr>) = Some r"
      by (simp add: virtqueue_get_buf_def)
    from IH [OF this] obtain k where
      k: "get_buf (exchanges m (seq m)) (Suc (polls m) + k) = Some (fst r)"
      and r: "snd r = m\<lparr>seq := Suc (seq m), polls := 0\<rparr>"
      by auto
    from k have "get_buf (exchanges m (seq m)) (polls m + Suc k) = Some (fst r)" by simp
    with r show ?thesis by blast
  next
    case (Some len)
    with step have "r = (len, m\<lparr>seq := Suc (seq m), polls := 0\<rparr>)"
      by (simp add: virtqueue_get_buf_def)
    moreover from Some have "get_buf (exchanges m (seq m)) (polls m + 0) = Some len" by simp
    ultimately show ?thesis by (metis fst_conv snd_conv)
  qed
qed

lemma first_used:
  assumes "get_buf e k \<noteq> None"
  shows "\<exists>k0 len. get_buf e k0 = Some len \<and> (\<forall>j<k0. get_buf e j = None)"
proof -
  let ?k0 = "LEAST k. get_buf e k \<noteq> None"
  have "get_buf e ?k0 \<noteq> None" using assms by (rule LeastI)
  moreover have "\<forall>j<?k0. get_buf e j = None" using not_less_Least by blast
  ultimately show ?thesis by blast
qed

lemma do_req_add_failed:
  assumes "add_errno (exchanges m (seq m)) \<noteq> 0"
  shows "virtio_gpu_do_req dev m type cmd isz osz flush =
         Some (exchange_ret (exchanges m (seq m)), req_hdr (dev_priv dev) type flush,
               out_buf (exchanges m (seq m)), dev\<lparr>dev_priv := req_priv (dev_priv dev) flush\<rparr>,
               log_msg (Dbg_virtqueue_add_failed (- int (add_errno (exchanges m (seq m)))))
                 (m\<lparr>seq := Suc (seq m), polls := 0\<rparr>))"
  using assms
  by (simp add: virtio_gpu_do_req_def virtqueue_add_def exchange_ret_def Let_def)

lemma do_req_added:
  assumes "add_errno (exchanges m (seq m)) = 0"
  shows "virtio_gpu_do_req dev m type cmd isz osz flush =
         (case wait_get_buf (m\<lparr>avail := avail m @ [chain_of dev type cmd isz osz flush],
                               polls := 0, kicks := Suc (kicks m)\<rparr>) of
            None \<Rightarrow> None
          | Some (len, m2) \<Rightarrow>
              Some (exchange_ret (exchanges m (seq m)), req_hdr (dev_priv dev) type flush,
                    out_buf (exchanges m (seq m)),
                    dev\<lparr>dev_priv := req_priv (dev_priv dev) flush\<rparr>,
                    if osz \<noteq> unat len
                    then log_msg (Dbg_invalid_response_size len osz) m2 else m2))"
  using assms
  by (simp add: virtio_gpu_do_req_def virtqueue_add_def virtqueue_kick_def exchange_ret_def
        chain_of_def Let_def split: option.splits)

lemma do_req_completed:
  assumes a: "add_errno (exchanges m (seq m)) = 0"
    and k: "get_buf (exchanges m (seq m)) k = Some len"
    and f: "\<forall>j<k. get_buf (exchanges m (seq m)) j = None"
  shows "virtio_gpu_do_req dev m type cmd isz osz flush =
         Some (sint (hdr_type (resp_hdr (out_buf (exchanges m (seq m))))),
               req_hdr (dev_priv dev) type flush,
               out_buf (exchanges m (seq m)),
               dev\<lparr>dev_priv := req_priv (dev_priv dev) flush\<rparr>,
               (if osz \<noteq> unat len then log_msg (Dbg_invalid_response_size len osz) else id)
                 (m\<lparr>avail := avail m @ [chain_of dev type cmd isz osz flush],
                    polls := 0, kicks := Suc (kicks m), seq := Suc (seq m)\<rparr>))"
proof -
  let ?m1 = "m\<lparr>avail := avail m @ [chain_of dev type cmd isz osz flush],
                polls := 0, kicks := Suc (kicks m)\<rparr>"
  have "wait_get_buf ?m1 = Some (len, ?m1\<lparr>seq := Suc (seq ?m1), polls := 0\<rparr>)"
    by (rule wait_get_buf_complete [where k = k]) (use k f in simp_all)
  then show ?thesis
    by (simp add: do_req_added [OF a] exchange_ret_def a log_msg_def)
qed

lemma do_req_Some:
  assumes "virtio_gpu_do_req dev m type cmd isz osz flush = Some (ret, hdr, out, dev', m')"
  shows "ret = exchange_ret (exchanges m (seq m))"
    and "hdr = req_hdr (dev_priv dev) type flush"
    and "out = out_buf (exchanges m (seq m))"
    and "dev' = dev\<lparr>dev_priv := req_priv (dev_priv dev) flush\<rparr>"
    and "seq m' = Suc (seq m)"
    and "same_surroundings m m'"
    and "avail m' = (if add_errno (exchanges m (seq m)) \<noteq> 0 then avail m
                     else avail m @ [chain_of dev type cmd isz osz flush])"
proof -
  have "ret = exchange_ret (exchanges m (seq m)) \<and>
        hdr = req_hdr (dev_priv dev) type flush \<and>
        out = out_buf (exchanges m (seq m)) \<and>
        dev' = dev\<lparr>dev_priv := req_priv (dev_priv dev) flush\<rparr> \<and>
        seq m' = Suc (seq m) \<and> same_surroundings m m' \<and>
        avail m' = (if add_errno (exchanges m (seq m)) \<noteq> 0 then avail m
                    else avail m @ [chain_of dev type cmd isz osz flush])"
  proof (cases "add_errno (exchanges m (seq m)) = 0")
    case False
    with assms show ?thesis
      by (auto simp: do_req_add_failed log_msg_def same_surroundings_def)
  next
    case True
    let ?m1 = "m\<lparr>avail := avail m @ [chain_of dev type cmd isz osz flush],
                  polls := 0, kicks := Suc (kicks m)\<rparr>"
    from assms True obtain len m2 where w: "wait_get_buf ?m1 = Some (len, m2)"
      by (auto simp: do_req_added split: option.splits)
    from wait_get_buf_Some [OF w] have m2: "m2 = ?m1\<lparr>seq := Suc (seq ?m1), polls := 0\<rparr>"
      by simp
    from assms True w show ?thesis
      by (auto simp: do_req_added m2 log_msg_def same_surroundings_def)
  qed
  then show "ret = exchange_ret (exchanges m (seq m))"
    and "hdr = req_hdr (dev_priv dev) type flush"
    and "out = out_buf (exchanges m (seq m))"
    and "dev' = dev\<lparr>dev_priv := req_priv (dev_priv dev) flush\<rparr>"
    and "seq m' = Suc (seq m)"
    and "same_surroundings m m'"
    and "avail m' = (if add_errno (exchanges m (seq m)) \<noteq> 0 then avail m
                     else avail m @ [chain_of dev type cmd isz osz flush])"
    by simp_all
qed

lemma do_req_returns:
  assumes "add_errno (exchanges m (seq m)) \<noteq> 0 \<or> get_buf (exchanges m (seq m)) k \<noteq> None"
  shows "\<exists>m'. virtio_gpu_do_req dev m type cmd isz osz flush =
           Some (exchange_ret (exchanges m (seq m)), req_hdr (dev_priv dev) type flush,
                 out_buf (exchanges m (seq m)),
                 dev\<lparr>dev_priv := req_priv (dev_priv dev) flush\<rparr>, m')"
proof (cases "add_errno (exchanges m (seq m)) = 0")
  case False
  then show ?thesis by (simp add: do_req_add_failed)
next
  case True
  with assms have "get_buf (exchanges m (seq m)) k \<noteq> None" by simp
  from first_used [OF this] obtain k0 len where
    "get_buf (exchanges m (seq m)) k0 = Some len"
    "\<forall>j<k0. get_buf (exchanges m (seq m)) j = None" by blast
  from do_req_completed [OF True this] show ?thesis
    by (simp add: exchange_ret_def True)
qed

section \<open>The reentrance guard of the flush\<close>

text \<open>
  Claim C1. When the in-progress flag of the device is set, \<open>virtio_gpu_video_sync\<close>
  returns 0 at once: the device and the surroundings are what they were, so no request
  reached the transport.
\<close>


theorem video_sync_reentrant:
  "in_sync (dev_priv dev) \<Longrightarrow> virtio_gpu_video_sync dev m = Some (0, dev, m)"
  by (simp add: virtio_gpu_video_sync_def)

theorem video_sync_reentrant_witness:
  "in_sync (dev_priv (ex_dev True 1 7)) \<and>
   virtio_gpu_video_sync (ex_dev True 1 7) (ex_machine (\<lambda>n. ex_exchange 0x1100 24 (\<lambda>i. False)))
   = Some (0, ex_dev True 1 7, ex_machine (\<lambda>n. ex_exchange 0x1100 24 (\<lambda>i. False)))"
  using video_sync_reentrant
    [of "ex_dev True 1 7" "ex_machine (\<lambda>n. ex_exchange 0x1100 24 (\<lambda>i. False))"]
  by (simp add: ex_dev_def)

section \<open>A response of unexpected length\<close>

text \<open>
  Claim C8. When the queue takes the chain and the device returns the buffer with a
  length other than the expected response size, \<open>virtio_gpu_do_req\<close> logs the mismatch
  and still returns the type decoded from the response header.
\<close>


theorem do_req_size_mismatch_not_fatal:
  assumes "add_errno (exchanges m (seq m)) = 0"
    and "get_buf (exchanges m (seq m)) k = Some len"
    and "\<forall>j<k. get_buf (exchanges m (seq m)) j = None"
    and "out_size \<noteq> unat len"
  shows "\<exists>m'. virtio_gpu_do_req dev m type in_cmd in_size out_size flush =
           Some (sint (hdr_type (resp_hdr (out_buf (exchanges m (seq m))))),
                 req_hdr (dev_priv dev) type flush, out_buf (exchanges m (seq m)),
                 dev\<lparr>dev_priv := req_priv (dev_priv dev) flush\<rparr>, m') \<and>
           console m' = console m @ [Dbg_invalid_response_size len out_size] \<and>
           seq m' = Suc (seq m)"
  using assms(4) by (simp add: do_req_completed [OF assms(1-3)] log_msg_def)

theorem do_req_size_mismatch_not_fatal_witness:
  "\<exists>m'. virtio_gpu_do_req (ex_dev False 1 0)
           (ex_machine (\<lambda>n. ex_exchange 0x1200 408 (\<lambda>i. False)))
           VIRTIO_GPU_CMD_RESOURCE_FLUSH
           (Resource_flush (full_rect (dev_uclass_priv (ex_dev False 1 0))) 1 0)
           sizeof_resource_flush sizeof_ctrl_hdr True =
         Some (0x1200, req_hdr (dev_priv (ex_dev False 1 0)) VIRTIO_GPU_CMD_RESOURCE_FLUSH True,
               \<lparr>resp_hdr = ex_hdr 0x1200, pmodes = (\<lambda>i. ex_display False)\<rparr>,
               ex_dev False 1 1, m') \<and>
         console m' = [Dbg_invalid_response_size 408 24] \<and> seq m' = 1"
  using do_req_size_mismatch_not_fatal
    [of "ex_machine (\<lambda>n. ex_exchange 0x1200 408 (\<lambda>i. False))" 2 408 sizeof_ctrl_hdr
        "ex_dev False 1 0" VIRTIO_GPU_CMD_RESOURCE_FLUSH
        "Resource_flush (full_rect (dev_uclass_priv (ex_dev False 1 0))) 1 0"
        sizeof_resource_flush True]
  by (simp add: ex_machine_def ex_exchange_def ex_hdr_def ex_dev_def sizeof_ctrl_hdr_def
        req_priv_def)

section \<open>The pixel of VIDEO\_XBGR8888\<close>


lemma xbgr_hi: "take_bit 8 (drop_bit 16 (pixel32_layout little_endian VIDEO_XBGR8888 c)) = ucast (rgb_b c)"
  apply (simp add: bit_eq_iff bit_simps)
  apply (auto simp: bit_simps dest: bit_imp_le_length)
  done

lemma xbgr_lo: "take_bit 8 (pixel32_layout little_endian VIDEO_XBGR8888 c) = ucast (rgb_b c)"
  apply (simp add: bit_eq_iff bit_simps)
  apply (auto simp: bit_simps dest: bit_imp_le_length)
  done

text \<open>
  Claim C10. For \<open>VIDEO_XBGR8888\<close> two colours with the same green and the same blue
  give the same pixel, whatever their red: the blue component fills bits 16 to 23 and
  the low byte of the value that is laid out.
\<close>


theorem xbgr8888_ignores_red:
  assumes "rgb_g c1 = rgb_g c2" and "rgb_b c1 = rgb_b c2"
  shows "video_rgb_to_pixel32 little_endian VIDEO_XBGR8888 c1 =
           video_rgb_to_pixel32 little_endian VIDEO_XBGR8888 c2 \<and>
         take_bit 8 (drop_bit 16 (pixel32_layout little_endian VIDEO_XBGR8888 c1)) =
           ucast (rgb_b c1) \<and>
         take_bit 8 (pixel32_layout little_endian VIDEO_XBGR8888 c1) = ucast (rgb_b c1)"
  using assms by (simp add: video_rgb_to_pixel32_def xbgr_hi xbgr_lo del: pixel32_layout.simps)
     (simp)

theorem xbgr8888_ignores_red_witness:
  "video_rgb_to_pixel32 True VIDEO_XBGR8888 \<lparr>rgb_r = 0xff, rgb_g = 0x22, rgb_b = 0x33\<rparr> =
   video_rgb_to_pixel32 True VIDEO_XBGR8888 \<lparr>rgb_r = 0x00, rgb_g = 0x22, rgb_b = 0x33\<rparr> \<and>
   video_rgb_to_pixel32 True VIDEO_XBGR8888 \<lparr>rgb_r = 0xff, rgb_g = 0x22, rgb_b = 0x33\<rparr> = 0x332233"
  using xbgr8888_ignores_red
    [of "\<lparr>rgb_r = 0xff, rgb_g = 0x22, rgb_b = 0x33\<rparr>"
        "\<lparr>rgb_r = 0x00, rgb_g = 0x22, rgb_b = 0x33\<rparr>" True]
  by (simp add: video_rgb_to_pixel32_def cpu_to_le32_def)

section \<open>The outcomes of the flush\<close>


lemma do_req_ends:
  assumes "add_errno (exchanges m (seq m)) \<noteq> 0 \<or> get_buf (exchanges m (seq m)) k \<noteq> None"
  obtains m' where
    "virtio_gpu_do_req dev m type cmd isz osz flush =
       Some (exchange_ret (exchanges m (seq m)), req_hdr (dev_priv dev) type flush,
             out_buf (exchanges m (seq m)),
             dev\<lparr>dev_priv := req_priv (dev_priv dev) flush\<rparr>, m')"
    and "seq m' = Suc (seq m)"
    and "same_surroundings m m'"
    and "avail m' = (if add_errno (exchanges m (seq m)) \<noteq> 0 then avail m
                     else avail m @ [chain_of dev type cmd isz osz flush])"
proof -
  from do_req_returns [OF assms] obtain m' where
    r: "virtio_gpu_do_req dev m type cmd isz osz flush =
       Some (exchange_ret (exchanges m (seq m)), req_hdr (dev_priv dev) type flush,
             out_buf (exchanges m (seq m)),
             dev\<lparr>dev_priv := req_priv (dev_priv dev) flush\<rparr>, m')"
    by blast
  from do_req_Some(5-7) [OF r] r that show thesis by blast
qed

lemma in_sync_set_in_sync [simp]: "in_sync (dev_priv (set_in_sync v dev)) = v"
  by (simp add: set_in_sync_def)

lemma in_sync_req_priv [simp]: "in_sync (req_priv priv flush) = in_sync priv"
  by (simp add: req_priv_def)




section \<open>What a bring-up that returns leaves behind\<close>

lemma req_priv_False [simp]: "req_priv priv False = priv"
  by (simp add: req_priv_def)

lemma scanout_res_id_req_priv [simp]:
  "scanout_res_id (req_priv priv flush) = scanout_res_id priv"
  by (simp add: req_priv_def)

lemma same_surroundings_refl [simp]: "same_surroundings m m"
  by (simp add: same_surroundings_def)

lemma same_surroundings_trans:
  "same_surroundings m m' \<Longrightarrow> same_surroundings m' m'' \<Longrightarrow> same_surroundings m m''"
  by (simp add: same_surroundings_def)

lemma same_surroundings_log_msg [simp]:
  "same_surroundings m (log_msg e m') = same_surroundings m m'"
  by (simp add: same_surroundings_def log_msg_def)

lemma do_req_unfenced:
  assumes "virtio_gpu_do_req dev m type cmd isz osz False = Some (ret, hdr, out, dev', m')"
  shows "dev' = dev"
  using do_req_Some(4) [OF assms] by simp

lemma set_scanout_loop_Some:
  "set_scanout_loop dev m scanout_mask = Some (failed, ret, dev', m') \<Longrightarrow>
   same_surroundings m m' \<and> dev' = dev"
proof (induction dev m scanout_mask rule: set_scanout_loop.induct)
  case (1 dev m scanout_mask)
  show ?case
  proof (cases "scanout_mask = 0")
    case True
    with "1.prems" show ?thesis by (simp add: set_scanout_loop.simps [of dev m])
  next
    case False
    let ?a = "active_of scanout_mask"
    let ?c = "Set_scanout (full_rect (dev_uclass_priv dev)) ?a (scanout_res_id (dev_priv dev))"
    from "1.prems" False obtain r h out dev1 m1 where
      d: "virtio_gpu_do_req dev m VIRTIO_GPU_CMD_SET_SCANOUT ?c
            sizeof_set_scanout sizeof_ctrl_hdr False = Some (r, h, out, dev1, m1)"
      by (auto simp: set_scanout_loop.simps [of dev m] Let_def split: option.splits)
    note e = do_req_Some(6) [OF d] and u = do_req_unfenced [OF d]
    show ?thesis
    proof (cases "r \<noteq> ctrl_type_val VIRTIO_GPU_RESP_OK_NODATA")
      case True
      with "1.prems" False d e u show ?thesis
        by (auto simp: set_scanout_loop.simps [of dev m] Let_def)
    next
      case ok: False
      with "1.prems" False d have
        "set_scanout_loop dev1 m1 (clear_scanout scanout_mask ?a) = Some (failed, ret, dev', m')"
        by (simp add: set_scanout_loop.simps [of dev m] Let_def)
      from "1.IH" [OF False refl refl d refl refl refl refl _ this] ok
      have "same_surroundings m1 m' \<and> dev' = dev1" by simp
      with e u show ?thesis by (auto intro: same_surroundings_trans)
    qed
  qed
qed

lemma probe_set_scanout_Some:
  assumes "probe_set_scanout dev m scanout_mask = Some (ret, dev', m')"
  shows "live m' = live m \<and> exchanges m' = exchanges m \<and> dev' = dev"
proof -
  let ?m1 = "m\<lparr>live := brk m # live m, brk := Suc (brk m)\<rparr>"
  from assms obtain failed r dev2 m2 where
    l: "set_scanout_loop dev ?m1 scanout_mask = Some (failed, r, dev2, m2)"
    by (auto simp: probe_set_scanout_def malloc_def split: option.splits)
  from set_scanout_loop_Some [OF l] have "live m2 = brk m # live m" "exchanges m2 = exchanges m"
    "dev2 = dev"
    by (simp_all add: same_surroundings_def)
  with assms l show ?thesis
    by (auto simp: probe_set_scanout_def malloc_def free_def out_free_set_scanout_def
          out_free_res_buf_def out_free_res_create_2d_def out_free_disp_def split: if_splits)
qed

lemma probe_attach_backing_Some:
  assumes "probe_attach_backing dev m scanout_mask = Some (ret, dev', m')"
  shows "live m' = live m \<and> exchanges m' = exchanges m \<and> dev' = dev"
proof -
  let ?m1 = "m\<lparr>live := brk m # live m, brk := Suc (brk m)\<rparr>"
  let ?c = "Resource_attach_backing (scanout_res_id (dev_priv dev)) 1
              (virt_to_phys m (plat_base (dev_uclass_plat dev)))
              (plat_size (dev_uclass_plat dev)) 0"
  from assms obtain r h out dev2 m2 where
    d: "virtio_gpu_do_req dev ?m1 VIRTIO_GPU_CMD_RESOURCE_ATTACH_BACKING ?c
          (sizeof_resource_attach_backing + sizeof_mem_entry) sizeof_ctrl_hdr False
        = Some (r, h, out, dev2, m2)"
    by (auto simp: probe_attach_backing_def malloc_def Let_def split: option.splits)
  from do_req_Some(6) [OF d] do_req_unfenced [OF d]
  have m2: "live m2 = brk m # live m" "exchanges m2 = exchanges m" "dev2 = dev"
    by (simp_all add: same_surroundings_def)
  show ?thesis
  proof (cases "r \<noteq> ctrl_type_val VIRTIO_GPU_RESP_OK_NODATA")
    case True
    with assms d m2 show ?thesis
      by (auto simp: probe_attach_backing_def malloc_def Let_def free_def log_msg_def
          out_free_res_buf_def out_free_res_create_2d_def out_free_disp_def)
  next
    case False
    with assms d have
      "probe_set_scanout dev2 (free (Some (brk m)) m2) scanout_mask = Some (ret, dev', m')"
      by (simp add: probe_attach_backing_def malloc_def Let_def)
    from probe_set_scanout_Some [OF this] m2 show ?thesis
      by (simp add: free_def)
  qed
qed

lemma probe_resource_create_2d_Some:
  assumes "probe_resource_create_2d cfg dev m scanout_mask = Some (ret, dev', m')"
  shows "live m' = live m \<and> exchanges m' = exchanges m \<and>
         scanout_res_id (dev_priv dev') = 1"
proof -
  let ?m1 = "m\<lparr>live := brk m # live m, brk := Suc (brk m)\<rparr>"
  let ?dev1 = "dev\<lparr>dev_uclass_priv := (dev_uclass_priv dev)
            \<lparr>xsize := word_of_int (VIRTIO_GPU_SIZE_X cfg),
             ysize := word_of_int (VIRTIO_GPU_SIZE_Y cfg),
             bpix := VIDEO_BPP32\<rparr>, dev_priv := (dev_priv dev)\<lparr>scanout_res_id := 1\<rparr>\<rparr>"
  let ?c = "Resource_create_2d 1 VIRTIO_GPU_FORMAT_B8G8R8X8_UNORM
              (ucast (word_of_int (VIRTIO_GPU_SIZE_X cfg) :: u16))
              (ucast (word_of_int (VIRTIO_GPU_SIZE_Y cfg) :: u16))"
  from assms obtain r h out dev2 m2 where
    d: "virtio_gpu_do_req ?dev1 ?m1 VIRTIO_GPU_CMD_RESOURCE_CREATE_2D ?c
          sizeof_resource_create_2d sizeof_ctrl_hdr False
        = Some (r, h, out, dev2, m2)"
    by (auto simp: probe_resource_create_2d_def malloc_def Let_def split: option.splits)
  from do_req_Some(6) [OF d] do_req_unfenced [OF d]
  have m2: "live m2 = brk m # live m" "exchanges m2 = exchanges m" "dev2 = ?dev1"
    by (simp_all add: same_surroundings_def)
  show ?thesis
  proof (cases "r \<noteq> ctrl_type_val VIRTIO_GPU_RESP_OK_NODATA")
    case True
    with assms d m2 show ?thesis
      by (auto simp: probe_resource_create_2d_def malloc_def Let_def free_def log_msg_def
          out_free_res_create_2d_def out_free_disp_def split: option.splits)
  next
    case False
    with assms d have
      "probe_attach_backing dev2 (free (Some (brk m)) m2) scanout_mask = Some (ret, dev', m')"
      by (auto simp: probe_resource_create_2d_def malloc_def Let_def split: option.splits)
    from probe_attach_backing_Some [OF this] m2 show ?thesis
      by (simp add: free_def)
  qed
qed

lemma scan_pmodes_snd:
  "snd (scan_pmodes d i msk m) =
   m\<lparr>console := console m @
        map Dbg_found_scanout
          (filter (\<lambda>n. disp_enabled (pmodes d n) \<noteq> 0) [i..<VIRTIO_GPU_MAX_SCANOUTS])\<rparr>"
proof (induction d i msk m rule: scan_pmodes.induct)
  case (1 d i msk m)
  show ?case
  proof (cases "i < VIRTIO_GPU_MAX_SCANOUTS")
    case False
    then show ?thesis by (simp add: scan_pmodes.simps [of d i])
  next
    case True
    then have u: "[i..<VIRTIO_GPU_MAX_SCANOUTS] = i # [Suc i..<VIRTIO_GPU_MAX_SCANOUTS]"
      by (rule upt_conv_Cons)
    show ?thesis
    proof (cases "disp_enabled (pmodes d i) = 0")
      case z: True
      from "1.IH"(1) [OF True refl z] True z show ?thesis
        by (subst scan_pmodes.simps) (simp add: u)
    next
      case nz: False
      from "1.IH"(2) [OF True refl nz] True nz show ?thesis
        by (subst scan_pmodes.simps) (simp add: u log_msg_def)
    qed
  qed
qed

lemma scan_pmodes_bit:
  "bit (fst (scan_pmodes d i msk m)) n \<longleftrightarrow>
   bit msk n \<or> (i \<le> n \<and> n < VIRTIO_GPU_MAX_SCANOUTS \<and> disp_enabled (pmodes d n) \<noteq> 0)"
proof (induction d i msk m rule: scan_pmodes.induct)
  case (1 d i msk m)
  show ?case
  proof (cases "i < VIRTIO_GPU_MAX_SCANOUTS")
    case False
    then show ?thesis by (subst scan_pmodes.simps) (auto simp: scan_pmodes.simps [of d i])
  next
    case True
    then have i32: "i < 32" by (simp add: VIRTIO_GPU_MAX_SCANOUTS_def)
    show ?thesis
    proof (cases "disp_enabled (pmodes d i) = 0")
      case z: True
      have "bit (fst (scan_pmodes d i msk m)) n = bit (fst (scan_pmodes d (Suc i) msk m)) n"
        using True z by (subst scan_pmodes.simps) simp
      also note "1.IH"(1) [OF True refl z]
      finally show ?thesis using z by (auto simp: Suc_le_eq le_less)
    next
      case nz: False
      have "bit (fst (scan_pmodes d i msk m)) n =
            bit (fst (scan_pmodes d (Suc i) (msk OR push_bit i 1)
                       (log_msg (Dbg_found_scanout i) m))) n"
        using True nz by (subst scan_pmodes.simps) simp
      also note "1.IH"(2) [OF True refl nz]
      finally show ?thesis using nz True i32
        by (auto simp: bit_or_iff bit_push_bit_iff bit_exp_iff Suc_le_eq le_less)
    qed
  qed
qed

lemma scan_pmodes_set_bits:
  "filter (bit (fst (scan_pmodes d 0 0 m))) [0..<32] = enabled_scanouts d"
proof -
  let ?k = "fst (scan_pmodes d 0 0 m)"
  have b: "bit ?k n \<longleftrightarrow> n < VIRTIO_GPU_MAX_SCANOUTS \<and> disp_enabled (pmodes d n) \<noteq> 0" for n
    by (simp add: scan_pmodes_bit)
  have "[0..<32] = [0..<VIRTIO_GPU_MAX_SCANOUTS] @ [VIRTIO_GPU_MAX_SCANOUTS..<32]"
    by (simp add: VIRTIO_GPU_MAX_SCANOUTS_def upt_add_eq_append [of 0 16 16, simplified])
  then have "filter (bit ?k) [0..<32] =
        filter (bit ?k) [0..<VIRTIO_GPU_MAX_SCANOUTS] @
        filter (bit ?k) [VIRTIO_GPU_MAX_SCANOUTS..<32]"
    by (simp only: filter_append)
  also have "filter (bit ?k) [VIRTIO_GPU_MAX_SCANOUTS..<32] = []"
    by (simp add: filter_empty_conv b del: upt.simps)
  also have "filter (bit ?k) [0..<VIRTIO_GPU_MAX_SCANOUTS] = enabled_scanouts d"
    unfolding enabled_scanouts_def by (rule filter_cong [OF refl]) (simp add: b)
  finally show ?thesis by simp
qed

lemma scan_pmodes_zero:
  "fst (scan_pmodes d 0 0 m) = 0 \<longleftrightarrow> enabled_scanouts d = []"
proof
  assume "fst (scan_pmodes d 0 0 m) = 0"
  with scan_pmodes_set_bits [of d m] show "enabled_scanouts d = []" by simp
next
  assume "enabled_scanouts d = []"
  with scan_pmodes_set_bits [of d m] set_bits_nonempty [of "fst (scan_pmodes d 0 0 m)"]
  show "fst (scan_pmodes d 0 0 m) = 0" by auto
qed

lemma probe_Some:
  assumes p: "virtio_gpu_probe cfg dev m = Some (ret, dev', m')"
  shows "live m' = live m \<and> exchanges m' = exchanges m \<and>
         scanout_res_id (dev_priv dev') =
           (if reaches_create_2d dev m then 1 else scanout_res_id (dev_priv dev))"
proof (cases "plat_base (dev_uclass_plat dev) = 0")
  case True
  with p show ?thesis
    by (auto simp: virtio_gpu_probe_def log_msg_def reaches_create_2d_def)
next
  case base: False
  show ?thesis
  proof (cases "find_vqs_ret m < 0")
    case True
    with p base show ?thesis
      by (auto simp: virtio_gpu_probe_def virtio_find_vqs_def log_msg_def reaches_create_2d_def)
  next
    case vqs: False
    let ?dev1 = "dev\<lparr>dev_priv := (dev_priv dev)\<lparr>vq := Some (find_vqs_vq m)\<rparr>\<rparr>"
    let ?m1 = "m\<lparr>live := brk m # live m, brk := Suc (brk m)\<rparr>"
    let ?p = "Some (brk m)"
    from p base vqs obtain r h out dev2 m2 where
      d: "virtio_gpu_do_req ?dev1 ?m1 VIRTIO_GPU_CMD_GET_DISPLAY_INFO Get_display_info
            sizeof_ctrl_hdr sizeof_resp_display_info False = Some (r, h, out, dev2, m2)"
      by (auto simp: virtio_gpu_probe_def virtio_find_vqs_def malloc_def split: option.splits)
    from do_req_Some(1,3,6) [OF d] do_req_unfenced [OF d]
    have m2: "r = exchange_ret (exchanges m (seq m))" "out = out_buf (exchanges m (seq m))"
      "live m2 = brk m # live m" "exchanges m2 = exchanges m" "dev2 = ?dev1"
      by (simp_all add: same_surroundings_def)
    show ?thesis
    proof (cases "r \<noteq> ctrl_type_val VIRTIO_GPU_RESP_OK_DISPLAY_INFO")
      case True
      with p base vqs d m2 show ?thesis
        by (auto simp: virtio_gpu_probe_def virtio_find_vqs_def malloc_def free_def log_msg_def
              out_free_disp_def reaches_create_2d_def)
    next
      case ok: False
      let ?k = "fst (scan_pmodes out 0 0 m2)" and ?m3 = "snd (scan_pmodes out 0 0 m2)"
      have m3: "live ?m3 = brk m # live m" "exchanges ?m3 = exchanges m"
        by (simp_all add: scan_pmodes_snd m2)
      show ?thesis
      proof (cases "?k = 0")
        case True
        then have "enabled_scanouts out = []" by (simp add: scan_pmodes_zero)
        with p base vqs d ok True m2 m3 show ?thesis
          by (auto simp: virtio_gpu_probe_def virtio_find_vqs_def malloc_def free_def
                log_msg_def out_free_disp_def reaches_create_2d_def split_def Let_def)
      next
        case False
        then have en: "enabled_scanouts out \<noteq> []" by (simp add: scan_pmodes_zero)
        from p base vqs d ok False have
          "probe_resource_create_2d cfg dev2 (free ?p ?m3) ?k = Some (ret, dev', m')"
          by (simp add: virtio_gpu_probe_def virtio_find_vqs_def malloc_def split_def Let_def)
        from probe_resource_create_2d_Some [OF this] m3 base vqs ok en m2 show ?thesis
          by (simp add: free_def reaches_create_2d_def)
      qed
    qed
  qed
qed

lemma video_sync_Some:
  assumes "virtio_gpu_video_sync dev m = Some (ret, dev', m')"
  shows "scanout_res_id (dev_priv dev') = scanout_res_id (dev_priv dev)"
proof (cases "in_sync (dev_priv dev)")
  case True
  with assms show ?thesis by (simp add: virtio_gpu_video_sync_def)
next
  case False
  let ?dev1 = "set_in_sync True dev"
  let ?c1 = "Transfer_to_host_2d (full_rect (dev_uclass_priv ?dev1)) 0
               (scanout_res_id (dev_priv ?dev1)) 0"
  from assms False obtain r h out dev2 m2 where
    d1: "virtio_gpu_do_req ?dev1 m VIRTIO_GPU_CMD_TRANSFER_TO_HOST_2D ?c1
           sizeof_transfer_to_host_2d sizeof_ctrl_hdr True = Some (r, h, out, dev2, m2)"
    by (auto simp: virtio_gpu_video_sync_def Let_def split: option.splits)
  from do_req_Some(4) [OF d1]
  have i2: "scanout_res_id (dev_priv dev2) = scanout_res_id (dev_priv dev)"
    by (simp add: set_in_sync_def)
  show ?thesis
  proof (cases "r \<noteq> ctrl_type_val VIRTIO_GPU_RESP_OK_NODATA")
    case True
    with assms False d1 i2 show ?thesis
      by (auto simp: virtio_gpu_video_sync_def Let_def set_in_sync_def)
  next
    case ok: False
    let ?c2 = "Resource_flush (full_rect (dev_uclass_priv dev2))
                 (scanout_res_id (dev_priv dev2)) 0"
    from assms False d1 ok obtain r' h' out' dev3 m3 where
      d2: "virtio_gpu_do_req dev2 m2 VIRTIO_GPU_CMD_RESOURCE_FLUSH ?c2
             sizeof_resource_flush sizeof_ctrl_hdr True = Some (r', h', out', dev3, m3)"
      by (auto simp: virtio_gpu_video_sync_def Let_def split: option.splits)
    with assms False d1 ok have r: "dev' = set_in_sync False dev3"
      by (auto simp: virtio_gpu_video_sync_def Let_def split: if_splits)
    from do_req_Some(4) [OF d2] i2 r show ?thesis
      by (simp add: set_in_sync_def)
  qed
qed

section \<open>No buffer outlives a failed bring-up\<close>

text \<open>
  Claim C7. When \<open>virtio_gpu_probe\<close> returns an error, the buffers that are live are
  those that were live before the call: every buffer it allocated on the way it has
  freed again.
\<close>


theorem probe_releases_buffers:
  assumes "virtio_gpu_probe cfg dev m = Some (ret, dev', m')" and "ret \<noteq> 0"
  shows "live m' = live m"
  using probe_Some [OF assms(1)] by simp

theorem probe_releases_buffers_witness:
  "\<exists>dev' m'.
     virtio_gpu_probe ex_cfg (ex_dev False 0 0)
       (ex_machine (ex_replies [0x1101, 0x1100, 0x1200] [0])) = Some (- 22, dev', m') \<and>
     brk m' = 3 \<and> live m' = []"
proof -
  let ?p = "virtio_gpu_probe ex_cfg (ex_dev False 0 0)
              (ex_machine (ex_replies [0x1101, 0x1100, 0x1200] [0]))"
  have "map_option (\<lambda>(ret, dev', m'). (ret, brk m')) ?p = Some (- 22, 3)"
    by code_simp
  then obtain dev' m' where r: "?p = Some (- 22, dev', m')" and b: "brk m' = 3"
    by auto
  from probe_releases_buffers [OF r] have "live m' = []"
    by (simp add: ex_machine_def)
  with r b show ?thesis by blast
qed

section \<open>The resource id\<close>

text \<open>
  Claim C6, amended. Neither \<open>virtio_gpu_bind\<close> nor \<open>virtio_gpu_video_sync\<close> changes
  the resource id, and a bring-up that ends before the \<open>RESOURCE_CREATE_2D\<close> step
  leaves it as it was. A bring-up that reaches that step stores 1 before it sends the
  request, and the id is 1 when bring-up returns, with success or with an error.
\<close>


theorem scanout_res_id_lifecycle:
  "(virtio_gpu_probe cfg dev m = Some (ret, dev', m') \<longrightarrow>
      scanout_res_id (dev_priv dev') =
        (if reaches_create_2d dev m then 1 else scanout_res_id (dev_priv dev))) \<and>
   (virtio_gpu_video_sync dev m = Some (ret, dev', m') \<longrightarrow>
      scanout_res_id (dev_priv dev') = scanout_res_id (dev_priv dev)) \<and>
   scanout_res_id (dev_priv (snd (virtio_gpu_bind cfg dev))) = scanout_res_id (dev_priv dev)"
  using probe_Some [of cfg dev m ret dev' m'] video_sync_Some [of dev m ret dev' m']
  by (simp add: virtio_gpu_bind_def Let_def)

theorem scanout_res_id_lifecycle_witness:
  "(\<exists>ret dev' m'.
      virtio_gpu_probe ex_cfg (ex_dev False 0 0)
        (ex_machine (ex_replies [0x1101, 0x1100, 0x1200] [0])) = Some (ret, dev', m') \<and>
      reaches_create_2d (ex_dev False 0 0)
        (ex_machine (ex_replies [0x1101, 0x1100, 0x1200] [0])) \<and>
      scanout_res_id (dev_priv dev') = 1) \<and>
   (\<exists>ret dev' m'.
      virtio_gpu_probe ex_cfg (ex_dev False 0 0)
        (ex_machine (ex_replies [0x1101] [])) = Some (ret, dev', m') \<and>
      \<not> reaches_create_2d (ex_dev False 0 0) (ex_machine (ex_replies [0x1101] [])) \<and>
      scanout_res_id (dev_priv dev') = 0) \<and>
   (\<exists>ret dev' m'.
      virtio_gpu_video_sync (ex_dev False 1 0) (ex_machine (ex_replies [] [])) =
        Some (ret, dev', m') \<and>
      scanout_res_id (dev_priv dev') = 1)"
proof -
  let ?p1 = "virtio_gpu_probe ex_cfg (ex_dev False 0 0)
               (ex_machine (ex_replies [0x1101, 0x1100, 0x1200] [0]))"
  let ?p2 = "virtio_gpu_probe ex_cfg (ex_dev False 0 0) (ex_machine (ex_replies [0x1101] []))"
  let ?s = "virtio_gpu_video_sync (ex_dev False 1 0) (ex_machine (ex_replies [] []))"
  have "map_option fst ?p1 = Some (- 22)" by code_simp
  then obtain ret1 dev1 m1 where r1: "?p1 = Some (ret1, dev1, m1)" by auto
  have "map_option fst ?p2 = Some (- 22)" by code_simp
  then obtain ret2 dev2 m2 where r2: "?p2 = Some (ret2, dev2, m2)" by auto
  have "map_option fst ?s = Some 0" by code_simp
  then obtain ret3 dev3 m3 where r3: "?s = Some (ret3, dev3, m3)" by auto
  have c1: "reaches_create_2d (ex_dev False 0 0)
              (ex_machine (ex_replies [0x1101, 0x1100, 0x1200] [0]))"
    by code_simp
  have c2: "\<not> reaches_create_2d (ex_dev False 0 0) (ex_machine (ex_replies [0x1101] []))"
    by code_simp
  from scanout_res_id_lifecycle
         [of ex_cfg "ex_dev False 0 0" "ex_machine (ex_replies [0x1101, 0x1100, 0x1200] [0])"
             ret1 dev1 m1] r1 c1
  have i1: "scanout_res_id (dev_priv dev1) = 1" by simp
  from scanout_res_id_lifecycle
         [of ex_cfg "ex_dev False 0 0" "ex_machine (ex_replies [0x1101] [])" ret2 dev2 m2] r2 c2
  have i2: "scanout_res_id (dev_priv dev2) = 0" by (simp add: ex_dev_def)
  from scanout_res_id_lifecycle
         [of ex_cfg "ex_dev False 1 0" "ex_machine (ex_replies [] [])" ret3 dev3 m3] r3
  have i3: "scanout_res_id (dev_priv dev3) = 1" by (simp add: ex_dev_def)
  from r1 c1 i1 r2 c2 i2 r3 i3 show ?thesis by blast
qed

text \<open>
  The display information names scanout 0 and \<open>RESOURCE_CREATE_2D\<close> is answered with
  an error: bring-up fails, and the resource id, 0 before, is 1.
\<close>


theorem scanout_res_id_lifecycle_counterexample:
  "map_option fst
     (virtio_gpu_probe ex_cfg (ex_dev False 0 0) (ex_machine (ex_replies [0x1101, 0x1200] [0])))
   = Some (- EINVAL) \<and>
   map_option (scanout_res_id \<circ> dev_priv \<circ> fst \<circ> snd)
     (virtio_gpu_probe ex_cfg (ex_dev False 0 0) (ex_machine (ex_replies [0x1101, 0x1200] [0])))
   = Some 1 \<and>
   scanout_res_id (dev_priv (ex_dev False 0 0)) = 0"
  by code_simp

section \<open>A bring-up that every answer lets through\<close>

lemma chain_of_unfenced:
  "chain_of dev type cmd isz osz False = chain_of dev' type cmd isz osz False"
  by (simp add: chain_of_def req_hdr_def)

lemma set_bits_zero: "filter (bit (0 :: u32)) [0..<32] = []"
  by (simp add: filter_empty_conv del: upt.simps)

lemma set_scanout_loop_ok:
  assumes "bits = filter (bit msk) [0..<32]"
    and "\<And>n. seq m \<le> n \<Longrightarrow>
           add_errno (exchanges m n) = 0 \<and> get_buf (exchanges m n) (k n) \<noteq> None \<and>
           sint (hdr_type (resp_hdr (out_buf (exchanges m n)))) =
             ctrl_type_val VIRTIO_GPU_RESP_OK_NODATA"
  shows "\<exists>m'. set_scanout_loop dev m msk =
                 Some (False, ctrl_type_val VIRTIO_GPU_RESP_OK_NODATA, dev, m') \<and>
               same_surroundings m m' \<and> seq m' = seq m + length bits \<and>
               avail m' = avail m @ map (set_scanout_chain dev) bits"
  using assms
proof (induction bits arbitrary: msk m)
  case Nil
  then have "msk = 0" using set_bits_nonempty [of msk] by auto
  then show ?case by (simp add: set_scanout_loop.simps [of dev m])
next
  case (Cons i rest)
  from Cons.prems(1) have f: "filter (bit msk) [0..<32] = i # rest" by simp
  then have nz: "msk \<noteq> 0" using set_bits_zero by auto
  let ?a = "active_of msk"
  have "word_of_nat (unat ?a) = ?a" by simp
  then have a: "?a = of_nat i" using active_of_hd [OF f] by simp
  let ?c = "Set_scanout (full_rect (dev_uclass_priv dev)) ?a (scanout_res_id (dev_priv dev))"
  from Cons.prems(2) [of "seq m"] have
    e: "add_errno (exchanges m (seq m)) = 0" "get_buf (exchanges m (seq m)) (k (seq m)) \<noteq> None"
    "exchange_ret (exchanges m (seq m)) = ctrl_type_val VIRTIO_GPU_RESP_OK_NODATA"
    by (simp_all add: exchange_ret_def)
  from e(2) obtain m1 where
    d: "virtio_gpu_do_req dev m VIRTIO_GPU_CMD_SET_SCANOUT ?c sizeof_set_scanout sizeof_ctrl_hdr
          False =
        Some (exchange_ret (exchanges m (seq m)),
              req_hdr (dev_priv dev) VIRTIO_GPU_CMD_SET_SCANOUT False,
              out_buf (exchanges m (seq m)),
              dev\<lparr>dev_priv := req_priv (dev_priv dev) False\<rparr>, m1)"
    and s1: "seq m1 = Suc (seq m)" and ss1: "same_surroundings m m1"
    and a1: "avail m1 = (if add_errno (exchanges m (seq m)) \<noteq> 0 then avail m
               else avail m @ [chain_of dev VIRTIO_GPU_CMD_SET_SCANOUT ?c
                                 sizeof_set_scanout sizeof_ctrl_hdr False])"
    using do_req_ends [of m "k (seq m)" dev VIRTIO_GPU_CMD_SET_SCANOUT ?c] by blast
  have step: "set_scanout_loop dev m msk = set_scanout_loop dev m1 (clear_scanout msk ?a)"
    using nz d e(3) by (simp add: set_scanout_loop.simps [of dev m] Let_def)
  have x1: "exchanges m1 = exchanges m" using ss1 by (simp add: same_surroundings_def)
  have "\<exists>m'. set_scanout_loop dev m1 (clear_scanout msk ?a) =
                 Some (False, ctrl_type_val VIRTIO_GPU_RESP_OK_NODATA, dev, m') \<and>
               same_surroundings m1 m' \<and> seq m' = seq m1 + length rest \<and>
               avail m' = avail m1 @ map (set_scanout_chain dev) rest"
  proof (rule Cons.IH)
    show "rest = filter (bit (clear_scanout msk ?a)) [0..<32]"
      using set_bits_clear [OF f] by simp
    show "add_errno (exchanges m1 n) = 0 \<and> get_buf (exchanges m1 n) (k n) \<noteq> None \<and>
          sint (hdr_type (resp_hdr (out_buf (exchanges m1 n)))) =
            ctrl_type_val VIRTIO_GPU_RESP_OK_NODATA" if "seq m1 \<le> n" for n
      using Cons.prems(2) [of n] that s1 by (simp add: x1)
  qed
  then obtain m' where
    r: "set_scanout_loop dev m1 (clear_scanout msk ?a) =
          Some (False, ctrl_type_val VIRTIO_GPU_RESP_OK_NODATA, dev, m')"
    and ss: "same_surroundings m1 m'" and s: "seq m' = seq m1 + length rest"
    and av: "avail m' = avail m1 @ map (set_scanout_chain dev) rest"
    by blast
  have "avail m1 = avail m @ [set_scanout_chain dev i]"
    using a1 e(1) a by (simp add: set_scanout_chain_def)
  with av have "avail m' = avail m @ map (set_scanout_chain dev) (i # rest)" by simp
  moreover have "seq m' = seq m + length (i # rest)" using s s1 by simp
  moreover have "same_surroundings m m'" using ss1 ss by (rule same_surroundings_trans)
  ultimately show ?case using step r by simp
qed

lemma do_req_ok:
  assumes "add_errno (exchanges m (seq m)) = 0" and "get_buf (exchanges m (seq m)) k \<noteq> None"
  obtains m' where
    "virtio_gpu_do_req dev m type cmd isz osz False =
       Some (sint (hdr_type (resp_hdr (out_buf (exchanges m (seq m))))),
             req_hdr (dev_priv dev) type False, out_buf (exchanges m (seq m)), dev, m')"
    and "seq m' = Suc (seq m)"
    and "same_surroundings m m'"
    and "avail m' = avail m @ [chain_of dev type cmd isz osz False]"
proof -
  from assms(2) obtain m' where
    "virtio_gpu_do_req dev m type cmd isz osz False =
       Some (exchange_ret (exchanges m (seq m)), req_hdr (dev_priv dev) type False,
             out_buf (exchanges m (seq m)),
             dev\<lparr>dev_priv := req_priv (dev_priv dev) False\<rparr>, m')"
    "seq m' = Suc (seq m)" "same_surroundings m m'"
    "avail m' = (if add_errno (exchanges m (seq m)) \<noteq> 0 then avail m
                 else avail m @ [chain_of dev type cmd isz osz False])"
    using do_req_ends [of m k dev type cmd isz osz False] by blast
  with assms(1) that show thesis by (simp add: exchange_ret_def)
qed

lemma probe_set_scanout_ok:
  assumes "\<And>n. seq m \<le> n \<Longrightarrow>
           add_errno (exchanges m n) = 0 \<and> get_buf (exchanges m n) (k n) \<noteq> None \<and>
           sint (hdr_type (resp_hdr (out_buf (exchanges m n)))) =
             ctrl_type_val VIRTIO_GPU_RESP_OK_NODATA"
  shows "\<exists>m'. probe_set_scanout dev m msk = Some (0, dev, m') \<and> live m' = live m \<and>
               seq m' = seq m + length (filter (bit msk) [0..<32]) \<and>
               avail m' = avail m @ map (set_scanout_chain dev) (filter (bit msk) [0..<32])"
proof -
  let ?m1 = "m\<lparr>live := brk m # live m, brk := Suc (brk m)\<rparr>"
  have "\<exists>m'. set_scanout_loop dev ?m1 msk =
                 Some (False, ctrl_type_val VIRTIO_GPU_RESP_OK_NODATA, dev, m') \<and>
               same_surroundings ?m1 m' \<and>
               seq m' = seq ?m1 + length (filter (bit msk) [0..<32]) \<and>
               avail m' = avail ?m1 @ map (set_scanout_chain dev) (filter (bit msk) [0..<32])"
    by (rule set_scanout_loop_ok [OF refl, where k = k]) (use assms in simp)
  then obtain m2 where
    l: "set_scanout_loop dev ?m1 msk =
          Some (False, ctrl_type_val VIRTIO_GPU_RESP_OK_NODATA, dev, m2)"
    and ss: "same_surroundings ?m1 m2"
    and s: "seq m2 = seq m + length (filter (bit msk) [0..<32])"
    and av: "avail m2 = avail m @ map (set_scanout_chain dev) (filter (bit msk) [0..<32])"
    by auto
  from ss have "live m2 = brk m # live m" by (simp add: same_surroundings_def)
  with l s av show ?thesis
    by (simp add: probe_set_scanout_def malloc_def free_def)
qed

lemma probe_attach_backing_ok:
  assumes "\<And>n. seq m \<le> n \<Longrightarrow>
           add_errno (exchanges m n) = 0 \<and> get_buf (exchanges m n) (k n) \<noteq> None \<and>
           sint (hdr_type (resp_hdr (out_buf (exchanges m n)))) =
             ctrl_type_val VIRTIO_GPU_RESP_OK_NODATA"
  shows "\<exists>m'. probe_attach_backing dev m msk = Some (0, dev, m') \<and> live m' = live m \<and>
               seq m' = seq m + 1 + length (filter (bit msk) [0..<32]) \<and>
               avail m' = avail m @
                 [chain_of dev VIRTIO_GPU_CMD_RESOURCE_ATTACH_BACKING
                    (Resource_attach_backing (scanout_res_id (dev_priv dev)) 1
                       (virt_to_phys m (plat_base (dev_uclass_plat dev)))
                       (plat_size (dev_uclass_plat dev)) 0)
                    (sizeof_resource_attach_backing + sizeof_mem_entry) sizeof_ctrl_hdr False] @
                 map (set_scanout_chain dev) (filter (bit msk) [0..<32])"
proof -
  let ?m1 = "m\<lparr>live := brk m # live m, brk := Suc (brk m)\<rparr>"
  let ?c = "Resource_attach_backing (scanout_res_id (dev_priv dev)) 1
              (virt_to_phys m (plat_base (dev_uclass_plat dev)))
              (plat_size (dev_uclass_plat dev)) 0"
  let ?sz = "sizeof_resource_attach_backing + sizeof_mem_entry"
  from assms [of "seq m"] have
    e: "add_errno (exchanges ?m1 (seq ?m1)) = 0"
       "get_buf (exchanges ?m1 (seq ?m1)) (k (seq m)) \<noteq> None"
       "sint (hdr_type (resp_hdr (out_buf (exchanges m (seq m))))) =
          ctrl_type_val VIRTIO_GPU_RESP_OK_NODATA"
    by simp_all
  obtain m2 where
    d: "virtio_gpu_do_req dev ?m1 VIRTIO_GPU_CMD_RESOURCE_ATTACH_BACKING ?c ?sz sizeof_ctrl_hdr
          False =
        Some (sint (hdr_type (resp_hdr (out_buf (exchanges ?m1 (seq ?m1))))),
              req_hdr (dev_priv dev) VIRTIO_GPU_CMD_RESOURCE_ATTACH_BACKING False,
              out_buf (exchanges ?m1 (seq ?m1)), dev, m2)"
    and s2: "seq m2 = Suc (seq ?m1)" and ss: "same_surroundings ?m1 m2"
    and a2: "avail m2 = avail ?m1 @
               [chain_of dev VIRTIO_GPU_CMD_RESOURCE_ATTACH_BACKING ?c ?sz sizeof_ctrl_hdr False]"
    using do_req_ok [OF e(1,2)] by blast
  let ?m3 = "free (Some (brk m)) m2"
  from ss s2 have m3: "exchanges ?m3 = exchanges m" "seq ?m3 = Suc (seq m)"
    "live ?m3 = live m" "avail ?m3 = avail m2"
    by (simp_all add: free_def same_surroundings_def)
  have "\<exists>m'. probe_set_scanout dev ?m3 msk = Some (0, dev, m') \<and> live m' = live ?m3 \<and>
               seq m' = seq ?m3 + length (filter (bit msk) [0..<32]) \<and>
               avail m' = avail ?m3 @ map (set_scanout_chain dev) (filter (bit msk) [0..<32])"
    by (rule probe_set_scanout_ok [where k = k]) (use assms m3 in simp)
  then obtain m' where
    "probe_set_scanout dev ?m3 msk = Some (0, dev, m')" "live m' = live m"
    "seq m' = Suc (seq m) + length (filter (bit msk) [0..<32])"
    "avail m' = avail m2 @ map (set_scanout_chain dev) (filter (bit msk) [0..<32])"
    using m3 by auto
  with d e(3) a2 show ?thesis
    by (simp add: probe_attach_backing_def malloc_def Let_def)
qed


lemma probe_resource_create_2d_ok:
  assumes "\<And>n. seq m \<le> n \<Longrightarrow>
           add_errno (exchanges m n) = 0 \<and> get_buf (exchanges m n) (k n) \<noteq> None \<and>
           sint (hdr_type (resp_hdr (out_buf (exchanges m n)))) =
             ctrl_type_val VIRTIO_GPU_RESP_OK_NODATA"
    and "dev1 = dev\<lparr>dev_uclass_priv := (dev_uclass_priv dev)
            \<lparr>xsize := word_of_int (VIRTIO_GPU_SIZE_X cfg),
             ysize := word_of_int (VIRTIO_GPU_SIZE_Y cfg),
             bpix := VIDEO_BPP32\<rparr>, dev_priv := (dev_priv dev)\<lparr>scanout_res_id := 1\<rparr>\<rparr>"
  shows "\<exists>m'. probe_resource_create_2d cfg dev m msk = Some (0, dev1, m') \<and>
               live m' = live m \<and>
               seq m' = seq m + 2 + length (filter (bit msk) [0..<32]) \<and>
               avail m' = avail m @
                 [chain_of dev1 VIRTIO_GPU_CMD_RESOURCE_CREATE_2D
                    (Resource_create_2d 1 VIRTIO_GPU_FORMAT_B8G8R8X8_UNORM
                       (ucast (xsize (dev_uclass_priv dev1)))
                       (ucast (ysize (dev_uclass_priv dev1))))
                    sizeof_resource_create_2d sizeof_ctrl_hdr False,
                  chain_of dev1 VIRTIO_GPU_CMD_RESOURCE_ATTACH_BACKING
                    (Resource_attach_backing 1 1
                       (virt_to_phys m (plat_base (dev_uclass_plat dev)))
                       (plat_size (dev_uclass_plat dev)) 0)
                    (sizeof_resource_attach_backing + sizeof_mem_entry) sizeof_ctrl_hdr False] @
                 map (set_scanout_chain dev1) (filter (bit msk) [0..<32])"
proof -
  let ?m1 = "m\<lparr>live := brk m # live m, brk := Suc (brk m)\<rparr>"
  let ?c = "Resource_create_2d 1 VIRTIO_GPU_FORMAT_B8G8R8X8_UNORM
              (ucast (xsize (dev_uclass_priv dev1))) (ucast (ysize (dev_uclass_priv dev1)))"
  from assms(1) [of "seq m"] have
    e: "add_errno (exchanges ?m1 (seq ?m1)) = 0"
       "get_buf (exchanges ?m1 (seq ?m1)) (k (seq m)) \<noteq> None"
       "sint (hdr_type (resp_hdr (out_buf (exchanges m (seq m))))) =
          ctrl_type_val VIRTIO_GPU_RESP_OK_NODATA"
    by simp_all
  obtain m2 where
    d: "virtio_gpu_do_req dev1 ?m1 VIRTIO_GPU_CMD_RESOURCE_CREATE_2D ?c
          sizeof_resource_create_2d sizeof_ctrl_hdr False =
        Some (sint (hdr_type (resp_hdr (out_buf (exchanges ?m1 (seq ?m1))))),
              req_hdr (dev_priv dev1) VIRTIO_GPU_CMD_RESOURCE_CREATE_2D False,
              out_buf (exchanges ?m1 (seq ?m1)), dev1, m2)"
    and s2: "seq m2 = Suc (seq ?m1)" and ss: "same_surroundings ?m1 m2"
    and a2: "avail m2 = avail ?m1 @
               [chain_of dev1 VIRTIO_GPU_CMD_RESOURCE_CREATE_2D ?c
                  sizeof_resource_create_2d sizeof_ctrl_hdr False]"
    using do_req_ok [OF e(1,2)] by blast
  let ?m3 = "free (Some (brk m)) m2"
  from ss s2 have m3: "exchanges ?m3 = exchanges m" "seq ?m3 = Suc (seq m)"
    "live ?m3 = live m" "avail ?m3 = avail m2" "virt_to_phys ?m3 = virt_to_phys m"
    by (simp_all add: free_def same_surroundings_def)
  have "\<exists>m'. probe_attach_backing dev1 ?m3 msk = Some (0, dev1, m') \<and> live m' = live ?m3 \<and>
               seq m' = seq ?m3 + 1 + length (filter (bit msk) [0..<32]) \<and>
               avail m' = avail ?m3 @
                 [chain_of dev1 VIRTIO_GPU_CMD_RESOURCE_ATTACH_BACKING
                    (Resource_attach_backing (scanout_res_id (dev_priv dev1)) 1
                       (virt_to_phys ?m3 (plat_base (dev_uclass_plat dev1)))
                       (plat_size (dev_uclass_plat dev1)) 0)
                    (sizeof_resource_attach_backing + sizeof_mem_entry) sizeof_ctrl_hdr False] @
                 map (set_scanout_chain dev1) (filter (bit msk) [0..<32])"
    by (rule probe_attach_backing_ok [where k = k]) (use assms(1) m3 in simp)
  then obtain m' where
    "probe_attach_backing dev1 ?m3 msk = Some (0, dev1, m')" "live m' = live m"
    "seq m' = Suc (seq m) + 1 + length (filter (bit msk) [0..<32])"
    "avail m' = avail m2 @
       [chain_of dev1 VIRTIO_GPU_CMD_RESOURCE_ATTACH_BACKING
          (Resource_attach_backing 1 1
             (virt_to_phys m (plat_base (dev_uclass_plat dev)))
             (plat_size (dev_uclass_plat dev)) 0)
          (sizeof_resource_attach_backing + sizeof_mem_entry) sizeof_ctrl_hdr False] @
       map (set_scanout_chain dev1) (filter (bit msk) [0..<32])"
    using m3 assms(2) by auto
  with d e(3) a2 assms(2) show ?thesis
    by (simp add: probe_resource_create_2d_def malloc_def Let_def)
qed

lemma enabled_scanouts_sorted: "sorted_wrt (<) (enabled_scanouts d)"
  unfolding enabled_scanouts_def by (rule sorted_wrt_filter) (rule sorted_wrt_upt)

lemma enabled_scanouts_empty:
  "enabled_scanouts d = [] \<longleftrightarrow>
   (\<forall>i<VIRTIO_GPU_MAX_SCANOUTS. disp_enabled (pmodes d i) = 0)"
  by (auto simp: enabled_scanouts_def filter_empty_conv)

section \<open>Display information without an enabled scanout\<close>

text \<open>
  Claim C3. The framebuffer is reserved, the queue is found, and the
  \<open>GET_DISPLAY_INFO\<close> request is answered by a response none of whose scanout
  descriptors is enabled. Then \<open>virtio_gpu_probe\<close> returns \<open>-EINVAL\<close> after that one
  exchange: the only chain that reached the queue is the \<open>GET_DISPLAY_INFO\<close> request,
  and none carries \<open>RESOURCE_CREATE_2D\<close>.
\<close>


theorem probe_no_scanout:
  assumes base: "plat_base (dev_uclass_plat dev) \<noteq> 0"
    and vqs: "\<not> find_vqs_ret m < 0"
    and add: "add_errno (exchanges m (seq m)) = 0"
    and got: "get_buf (exchanges m (seq m)) k \<noteq> None"
    and none: "\<forall>i<VIRTIO_GPU_MAX_SCANOUTS.
                 disp_enabled (pmodes (out_buf (exchanges m (seq m))) i) = 0"
  shows "\<exists>dev' m'.
           virtio_gpu_probe cfg dev m = Some (- EINVAL, dev', m') \<and>
           seq m' = Suc (seq m) \<and>
           avail m' = avail m @
             [chain_of dev VIRTIO_GPU_CMD_GET_DISPLAY_INFO Get_display_info
                sizeof_ctrl_hdr sizeof_resp_display_info False] \<and>
           list_all (\<lambda>c. hdr_type (sg_hdr c) \<noteq>
                          word_of_int (ctrl_type_val VIRTIO_GPU_CMD_RESOURCE_CREATE_2D))
             (drop (length (avail m)) (avail m'))"
proof -
  let ?dev1 = "dev\<lparr>dev_priv := (dev_priv dev)\<lparr>vq := Some (find_vqs_vq m)\<rparr>\<rparr>"
  let ?m1 = "m\<lparr>live := brk m # live m, brk := Suc (brk m)\<rparr>"
  let ?out = "out_buf (exchanges m (seq m))"
  from add got have e: "add_errno (exchanges ?m1 (seq ?m1)) = 0"
    "get_buf (exchanges ?m1 (seq ?m1)) k \<noteq> None" by simp_all
  obtain m2 where
    d: "virtio_gpu_do_req ?dev1 ?m1 VIRTIO_GPU_CMD_GET_DISPLAY_INFO Get_display_info
          sizeof_ctrl_hdr sizeof_resp_display_info False =
        Some (sint (hdr_type (resp_hdr (out_buf (exchanges ?m1 (seq ?m1))))),
              req_hdr (dev_priv ?dev1) VIRTIO_GPU_CMD_GET_DISPLAY_INFO False,
              out_buf (exchanges ?m1 (seq ?m1)), ?dev1, m2)"
    and s2: "seq m2 = Suc (seq ?m1)"
    and a2: "avail m2 = avail ?m1 @
               [chain_of ?dev1 VIRTIO_GPU_CMD_GET_DISPLAY_INFO Get_display_info
                  sizeof_ctrl_hdr sizeof_resp_display_info False]"
    using do_req_ok [OF e] by blast
  have c: "chain_of ?dev1 VIRTIO_GPU_CMD_GET_DISPLAY_INFO Get_display_info
             sizeof_ctrl_hdr sizeof_resp_display_info False =
           chain_of dev VIRTIO_GPU_CMD_GET_DISPLAY_INFO Get_display_info
             sizeof_ctrl_hdr sizeof_resp_display_info False"
    by (rule chain_of_unfenced)
  from none have z: "fst (scan_pmodes ?out 0 0 m2) = 0"
    by (simp add: scan_pmodes_zero enabled_scanouts_empty)
  have t: "hdr_type (sg_hdr (chain_of dev VIRTIO_GPU_CMD_GET_DISPLAY_INFO Get_display_info
             sizeof_ctrl_hdr sizeof_resp_display_info False)) \<noteq>
           word_of_int (ctrl_type_val VIRTIO_GPU_CMD_RESOURCE_CREATE_2D)"
    by (simp add: chain_of_def req_hdr_def)
  from base vqs d s2 a2 z t show ?thesis
    by (auto simp: virtio_gpu_probe_def virtio_find_vqs_def malloc_def free_def log_msg_def
          out_free_disp_def split_def Let_def scan_pmodes_snd c)
qed


theorem probe_no_scanout_witness:
  "\<exists>dev' m'.
     virtio_gpu_probe ex_cfg (ex_dev False 0 0) (ex_machine (ex_replies [0x1101] [])) =
       Some (- 22, dev', m') \<and>
     seq m' = 1 \<and>
     avail m' =
       [\<lparr>sg_hdr = \<lparr>hdr_type = 0x100, hdr_flags = 0, hdr_fence_id = 0, hdr_ctx_id = 0,
                   hdr_ring_idx = 0\<rparr>,
         sg_cmd = Get_display_info, sg_in_length = 24, sg_out_length = 408\<rparr>]"
  using probe_no_scanout [of "ex_dev False 0 0" "ex_machine (ex_replies [0x1101] [])" 2 ex_cfg]
  by (simp add: ex_dev_def ex_machine_def ex_replies_def ex_exchange_def ex_enabled_def
        ex_display_def EINVAL_def chain_of_def req_hdr_def sizeof_ctrl_hdr_def
        sizeof_resp_display_info_def VIRTIO_GPU_MAX_SCANOUTS_def)
     blast

section \<open>One SET\_SCANOUT for each enabled scanout\<close>

lemma probe_ok_chains:
  assumes base: "plat_base (dev_uclass_plat dev) \<noteq> 0"
    and vqs: "\<not> find_vqs_ret m < 0"
    and env: "\<And>n. seq m \<le> n \<Longrightarrow>
                add_errno (exchanges m n) = 0 \<and> get_buf (exchanges m n) (k n) \<noteq> None"
    and first: "sint (hdr_type (resp_hdr (out_buf (exchanges m (seq m))))) =
                  ctrl_type_val VIRTIO_GPU_RESP_OK_DISPLAY_INFO"
    and rest: "\<And>n. seq m < n \<Longrightarrow>
                 sint (hdr_type (resp_hdr (out_buf (exchanges m n)))) =
                   ctrl_type_val VIRTIO_GPU_RESP_OK_NODATA"
    and en: "enabled_scanouts (out_buf (exchanges m (seq m))) \<noteq> []"
  shows "\<exists>m'.
           virtio_gpu_probe cfg dev m = Some (0, probed cfg dev m, m') \<and>
           (\<forall>m0 n. bit (fst (scan_pmodes (out_buf (exchanges m (seq m))) 0 0 m0)) n \<longleftrightarrow>
                    n \<in> set (enabled_scanouts (out_buf (exchanges m (seq m))))) \<and>
           sorted_wrt (<) (enabled_scanouts (out_buf (exchanges m (seq m)))) \<and>
           seq m' = seq m + 3 + length (enabled_scanouts (out_buf (exchanges m (seq m)))) \<and>
           avail m' = avail m @
             [chain_of dev VIRTIO_GPU_CMD_GET_DISPLAY_INFO Get_display_info
                sizeof_ctrl_hdr sizeof_resp_display_info False,
              chain_of dev VIRTIO_GPU_CMD_RESOURCE_CREATE_2D
                (Resource_create_2d 1 VIRTIO_GPU_FORMAT_B8G8R8X8_UNORM
                   (ucast (xsize (dev_uclass_priv (probed cfg dev m))))
                   (ucast (ysize (dev_uclass_priv (probed cfg dev m)))))
                sizeof_resource_create_2d sizeof_ctrl_hdr False,
              chain_of dev VIRTIO_GPU_CMD_RESOURCE_ATTACH_BACKING
                (Resource_attach_backing 1 1
                   (virt_to_phys m (plat_base (dev_uclass_plat dev)))
                   (plat_size (dev_uclass_plat dev)) 0)
                (sizeof_resource_attach_backing + sizeof_mem_entry) sizeof_ctrl_hdr False] @
             map (set_scanout_chain (probed cfg dev m))
               (enabled_scanouts (out_buf (exchanges m (seq m))))"
proof -
  let ?dev1 = "dev\<lparr>dev_priv := (dev_priv dev)\<lparr>vq := Some (find_vqs_vq m)\<rparr>\<rparr>"
  let ?m1 = "m\<lparr>live := brk m # live m, brk := Suc (brk m)\<rparr>"
  let ?out = "out_buf (exchanges m (seq m))"
  let ?P = "probed cfg dev m"
  from env [of "seq m"] have e: "add_errno (exchanges ?m1 (seq ?m1)) = 0"
    "get_buf (exchanges ?m1 (seq ?m1)) (k (seq m)) \<noteq> None" by simp_all
  obtain m2 where
    d: "virtio_gpu_do_req ?dev1 ?m1 VIRTIO_GPU_CMD_GET_DISPLAY_INFO Get_display_info
          sizeof_ctrl_hdr sizeof_resp_display_info False =
        Some (sint (hdr_type (resp_hdr (out_buf (exchanges ?m1 (seq ?m1))))),
              req_hdr (dev_priv ?dev1) VIRTIO_GPU_CMD_GET_DISPLAY_INFO False,
              out_buf (exchanges ?m1 (seq ?m1)), ?dev1, m2)"
    and s2: "seq m2 = Suc (seq ?m1)" and ss: "same_surroundings ?m1 m2"
    and a2: "avail m2 = avail ?m1 @
               [chain_of ?dev1 VIRTIO_GPU_CMD_GET_DISPLAY_INFO Get_display_info
                  sizeof_ctrl_hdr sizeof_resp_display_info False]"
    using do_req_ok [OF e] by blast
  let ?k = "fst (scan_pmodes ?out 0 0 m2)"
  let ?m3 = "free (Some (brk m)) (snd (scan_pmodes ?out 0 0 m2))"
  have bits: "filter (bit ?k) [0..<32] = enabled_scanouts ?out"
    by (rule scan_pmodes_set_bits)
  from en have nz: "?k \<noteq> 0" by (simp add: scan_pmodes_zero)
  from ss s2 have m3: "exchanges ?m3 = exchanges m" "seq ?m3 = Suc (seq m)"
    "live ?m3 = live m" "avail ?m3 = avail m2" "virt_to_phys ?m3 = virt_to_phys m"
    by (simp_all add: free_def same_surroundings_def scan_pmodes_snd)
  have P: "?P = ?dev1\<lparr>dev_uclass_priv := (dev_uclass_priv ?dev1)
            \<lparr>xsize := word_of_int (VIRTIO_GPU_SIZE_X cfg),
             ysize := word_of_int (VIRTIO_GPU_SIZE_Y cfg),
             bpix := VIDEO_BPP32\<rparr>, dev_priv := (dev_priv ?dev1)\<lparr>scanout_res_id := 1\<rparr>\<rparr>"
    by (simp add: probed_def)
  have "\<exists>m'. probe_resource_create_2d cfg ?dev1 ?m3 ?k = Some (0, ?P, m') \<and>
               live m' = live ?m3 \<and>
               seq m' = seq ?m3 + 2 + length (filter (bit ?k) [0..<32]) \<and>
               avail m' = avail ?m3 @
                 [chain_of ?P VIRTIO_GPU_CMD_RESOURCE_CREATE_2D
                    (Resource_create_2d 1 VIRTIO_GPU_FORMAT_B8G8R8X8_UNORM
                       (ucast (xsize (dev_uclass_priv ?P)))
                       (ucast (ysize (dev_uclass_priv ?P))))
                    sizeof_resource_create_2d sizeof_ctrl_hdr False,
                  chain_of ?P VIRTIO_GPU_CMD_RESOURCE_ATTACH_BACKING
                    (Resource_attach_backing 1 1
                       (virt_to_phys ?m3 (plat_base (dev_uclass_plat ?dev1)))
                       (plat_size (dev_uclass_plat ?dev1)) 0)
                    (sizeof_resource_attach_backing + sizeof_mem_entry) sizeof_ctrl_hdr False] @
                 map (set_scanout_chain ?P) (filter (bit ?k) [0..<32])"
  proof (rule probe_resource_create_2d_ok [where k = k, OF _ P])
    show "add_errno (exchanges ?m3 n) = 0 \<and> get_buf (exchanges ?m3 n) (k n) \<noteq> None \<and>
          sint (hdr_type (resp_hdr (out_buf (exchanges ?m3 n)))) =
            ctrl_type_val VIRTIO_GPU_RESP_OK_NODATA" if "seq ?m3 \<le> n" for n
      using env [of n] rest [of n] that by (simp add: m3)
  qed
  then obtain m' where
    r: "probe_resource_create_2d cfg ?dev1 ?m3 ?k = Some (0, ?P, m')"
    and s: "seq m' = seq m + 3 + length (enabled_scanouts ?out)"
    and av: "avail m' = avail m2 @
                 [chain_of ?P VIRTIO_GPU_CMD_RESOURCE_CREATE_2D
                    (Resource_create_2d 1 VIRTIO_GPU_FORMAT_B8G8R8X8_UNORM
                       (ucast (xsize (dev_uclass_priv ?P)))
                       (ucast (ysize (dev_uclass_priv ?P))))
                    sizeof_resource_create_2d sizeof_ctrl_hdr False,
                  chain_of ?P VIRTIO_GPU_CMD_RESOURCE_ATTACH_BACKING
                    (Resource_attach_backing 1 1
                       (virt_to_phys m (plat_base (dev_uclass_plat dev)))
                       (plat_size (dev_uclass_plat dev)) 0)
                    (sizeof_resource_attach_backing + sizeof_mem_entry) sizeof_ctrl_hdr False] @
                 map (set_scanout_chain ?P) (enabled_scanouts ?out)"
    using m3 bits by auto
  have p: "virtio_gpu_probe cfg dev m = Some (0, ?P, m')"
    using base vqs d first nz r
    by (simp add: virtio_gpu_probe_def virtio_find_vqs_def malloc_def split_def Let_def)
  have msk: "bit (fst (scan_pmodes ?out 0 0 m0)) n \<longleftrightarrow> n \<in> set (enabled_scanouts ?out)"
    for m0 n
    by (auto simp: scan_pmodes_bit enabled_scanouts_def)
  have c: "chain_of x t cmd i j False = chain_of dev t cmd i j False" for x t cmd i j
    by (rule chain_of_unfenced)
  from p msk s av a2 show ?thesis
    by (simp add: enabled_scanouts_sorted c [of ?P] c [of ?dev1])
qed

text \<open>
  Claim C4. The framebuffer is reserved, the queue is found, every exchange ends, the
  first with \<open>OK_DISPLAY_INFO\<close> and at least one enabled scanout, the later ones with
  \<open>OK_NODATA\<close>. Then \<open>virtio_gpu_probe\<close> returns 0; the bits of the mask it builds
  are exactly the enabled scanout indices; and the chains that reached the queue are
  the display-information request, the creation of resource 1, the attachment of the
  framebuffer, and then one request for each enabled index, in ascending order, each
  with the type \<open>SET_SCANOUT\<close> in an unfenced header, the full-screen rectangle, that
  index and resource id 1.
\<close>

theorem probe_binds_enabled_scanouts:
  assumes base: "plat_base (dev_uclass_plat dev) \<noteq> 0"
    and vqs: "\<not> find_vqs_ret m < 0"
    and env: "\<And>n. seq m \<le> n \<Longrightarrow>
                add_errno (exchanges m n) = 0 \<and> get_buf (exchanges m n) (k n) \<noteq> None"
    and first: "sint (hdr_type (resp_hdr (out_buf (exchanges m (seq m))))) =
                  ctrl_type_val VIRTIO_GPU_RESP_OK_DISPLAY_INFO"
    and rest: "\<And>n. seq m < n \<Longrightarrow>
                 sint (hdr_type (resp_hdr (out_buf (exchanges m n)))) =
                   ctrl_type_val VIRTIO_GPU_RESP_OK_NODATA"
    and en: "enabled_scanouts (out_buf (exchanges m (seq m))) \<noteq> []"
  shows "\<exists>m'.
           virtio_gpu_probe cfg dev m = Some (0, probed cfg dev m, m') \<and>
           (\<forall>m0 n. bit (fst (scan_pmodes (out_buf (exchanges m (seq m))) 0 0 m0)) n \<longleftrightarrow>
                    n \<in> set (enabled_scanouts (out_buf (exchanges m (seq m))))) \<and>
           sorted_wrt (<) (enabled_scanouts (out_buf (exchanges m (seq m)))) \<and>
           seq m' = seq m + 3 + length (enabled_scanouts (out_buf (exchanges m (seq m)))) \<and>
           avail m' = avail m @
             [\<lparr>sg_hdr = plain_hdr VIRTIO_GPU_CMD_GET_DISPLAY_INFO,
               sg_cmd = Get_display_info,
               sg_in_length = sizeof_ctrl_hdr, sg_out_length = sizeof_resp_display_info\<rparr>,
              \<lparr>sg_hdr = plain_hdr VIRTIO_GPU_CMD_RESOURCE_CREATE_2D,
               sg_cmd = Resource_create_2d 1 VIRTIO_GPU_FORMAT_B8G8R8X8_UNORM
                          (ucast (word_of_int (VIRTIO_GPU_SIZE_X cfg) :: u16))
                          (ucast (word_of_int (VIRTIO_GPU_SIZE_Y cfg) :: u16)),
               sg_in_length = sizeof_resource_create_2d, sg_out_length = sizeof_ctrl_hdr\<rparr>,
              \<lparr>sg_hdr = plain_hdr VIRTIO_GPU_CMD_RESOURCE_ATTACH_BACKING,
               sg_cmd = Resource_attach_backing 1 1
                          (virt_to_phys m (plat_base (dev_uclass_plat dev)))
                          (plat_size (dev_uclass_plat dev)) 0,
               sg_in_length = sizeof_resource_attach_backing + sizeof_mem_entry,
               sg_out_length = sizeof_ctrl_hdr\<rparr>] @
             map (\<lambda>i. \<lparr>sg_hdr = plain_hdr VIRTIO_GPU_CMD_SET_SCANOUT,
                         sg_cmd = Set_scanout
                           \<lparr>rect_x = 0, rect_y = 0,
                            rect_width = ucast (word_of_int (VIRTIO_GPU_SIZE_X cfg) :: u16),
                            rect_height = ucast (word_of_int (VIRTIO_GPU_SIZE_Y cfg) :: u16)\<rparr>
                           (of_nat i) 1,
                         sg_in_length = sizeof_set_scanout, sg_out_length = sizeof_ctrl_hdr\<rparr>)
               (enabled_scanouts (out_buf (exchanges m (seq m))))"
  (is "\<exists>m'. ?p m' \<and> ?b \<and> ?s \<and> ?q m' \<and> ?a m'")
proof -
  from probe_ok_chains [OF base vqs env first rest en, of cfg]
  obtain m' where c: "?p m' \<and> ?b \<and> ?s \<and> ?q m' \<and>
           avail m' = avail m @
             [chain_of dev VIRTIO_GPU_CMD_GET_DISPLAY_INFO Get_display_info
                sizeof_ctrl_hdr sizeof_resp_display_info False,
              chain_of dev VIRTIO_GPU_CMD_RESOURCE_CREATE_2D
                (Resource_create_2d 1 VIRTIO_GPU_FORMAT_B8G8R8X8_UNORM
                   (ucast (xsize (dev_uclass_priv (probed cfg dev m))))
                   (ucast (ysize (dev_uclass_priv (probed cfg dev m)))))
                sizeof_resource_create_2d sizeof_ctrl_hdr False,
              chain_of dev VIRTIO_GPU_CMD_RESOURCE_ATTACH_BACKING
                (Resource_attach_backing 1 1
                   (virt_to_phys m (plat_base (dev_uclass_plat dev)))
                   (plat_size (dev_uclass_plat dev)) 0)
                (sizeof_resource_attach_backing + sizeof_mem_entry) sizeof_ctrl_hdr False] @
             map (set_scanout_chain (probed cfg dev m))
               (enabled_scanouts (out_buf (exchanges m (seq m))))" ..
  note av = c [THEN conjunct2, THEN conjunct2, THEN conjunct2, THEN conjunct2]
  have h: "chain_of x t cmd i j False =
           \<lparr>sg_hdr = plain_hdr t, sg_cmd = cmd, sg_in_length = i, sg_out_length = j\<rparr>"
    for x t cmd i j
    by (simp add: chain_of_def req_hdr_def plain_hdr_def)
  have g: "xsize (dev_uclass_priv (probed cfg dev m)) = word_of_int (VIRTIO_GPU_SIZE_X cfg)"
    "ysize (dev_uclass_priv (probed cfg dev m)) = word_of_int (VIRTIO_GPU_SIZE_Y cfg)"
    "scanout_res_id (dev_priv (probed cfg dev m)) = 1"
    by (simp_all add: probed_def)
  have sc: "set_scanout_chain (probed cfg dev m) =
            (\<lambda>i. \<lparr>sg_hdr = plain_hdr VIRTIO_GPU_CMD_SET_SCANOUT,
                         sg_cmd = Set_scanout
                           \<lparr>rect_x = 0, rect_y = 0,
                            rect_width = ucast (word_of_int (VIRTIO_GPU_SIZE_X cfg) :: u16),
                            rect_height = ucast (word_of_int (VIRTIO_GPU_SIZE_Y cfg) :: u16)\<rparr>
                           (of_nat i) 1,
                         sg_in_length = sizeof_set_scanout, sg_out_length = sizeof_ctrl_hdr\<rparr>)"
    by (rule ext) (simp add: set_scanout_chain_def h g full_rect_def)
  have a: "?a m'" unfolding av h g sc ..
  show ?thesis
    by (rule exI [of _ m'])
       (intro conjI c [THEN conjunct1] c [THEN conjunct2, THEN conjunct1]
          c [THEN conjunct2, THEN conjunct2, THEN conjunct1]
          c [THEN conjunct2, THEN conjunct2, THEN conjunct2, THEN conjunct1] a)
qed

theorem probe_binds_enabled_scanouts_witness:
  "\<exists>m'.
     virtio_gpu_probe ex_cfg (ex_dev False 0 0) (ex_machine (ex_replies [0x1101] [0, 3])) =
       Some (0, probed ex_cfg (ex_dev False 0 0) (ex_machine (ex_replies [0x1101] [0, 3])), m') \<and>
     enabled_scanouts (out_buf (ex_replies [0x1101] [0, 3] 0)) = [0, 3] \<and>
     seq m' = 5 \<and>
     avail m' =
       [\<lparr>sg_hdr = \<lparr>hdr_type = 0x100, hdr_flags = 0, hdr_fence_id = 0, hdr_ctx_id = 0,
                   hdr_ring_idx = 0\<rparr>,
         sg_cmd = Get_display_info, sg_in_length = 24, sg_out_length = 408\<rparr>,
        \<lparr>sg_hdr = \<lparr>hdr_type = 0x101, hdr_flags = 0, hdr_fence_id = 0, hdr_ctx_id = 0,
                   hdr_ring_idx = 0\<rparr>,
         sg_cmd = Resource_create_2d 1 2 1280 1024, sg_in_length = 40, sg_out_length = 24\<rparr>,
        \<lparr>sg_hdr = \<lparr>hdr_type = 0x106, hdr_flags = 0, hdr_fence_id = 0, hdr_ctx_id = 0,
                   hdr_ring_idx = 0\<rparr>,
         sg_cmd = Resource_attach_backing 1 1 0x80000000 6553600 0,
         sg_in_length = 48, sg_out_length = 24\<rparr>,
        \<lparr>sg_hdr = \<lparr>hdr_type = 0x103, hdr_flags = 0, hdr_fence_id = 0, hdr_ctx_id = 0,
                   hdr_ring_idx = 0\<rparr>,
         sg_cmd = Set_scanout
                    \<lparr>rect_x = 0, rect_y = 0, rect_width = 1280, rect_height = 1024\<rparr> 0 1,
         sg_in_length = 48, sg_out_length = 24\<rparr>,
        \<lparr>sg_hdr = \<lparr>hdr_type = 0x103, hdr_flags = 0, hdr_fence_id = 0, hdr_ctx_id = 0,
                   hdr_ring_idx = 0\<rparr>,
         sg_cmd = Set_scanout
                    \<lparr>rect_x = 0, rect_y = 0, rect_width = 1280, rect_height = 1024\<rparr> 3 1,
         sg_in_length = 48, sg_out_length = 24\<rparr>]"
  (is "\<exists>m'. ?p m' \<and> ?e \<and> ?s m' \<and> ?a m'")
proof -
  let ?D = "ex_dev False 0 0" and ?M = "ex_machine (ex_replies [0x1101] [0, 3])"
  have en: "enabled_scanouts (out_buf (ex_replies [0x1101] [0, 3] 0)) = [0, 3]"
    by code_simp
  have x: "exchanges ?M = ex_replies [0x1101] [0, 3]" "seq ?M = 0"
    by (simp_all add: ex_machine_def)
  have b: "plat_base (dev_uclass_plat ?D) \<noteq> 0" by (simp add: ex_dev_def)
  have v: "\<not> find_vqs_ret ?M < 0" by (simp add: ex_machine_def)
  have e: "add_errno (exchanges ?M n) = 0 \<and> get_buf (exchanges ?M n) 2 \<noteq> None" for n
    by (simp add: x ex_replies_def ex_exchange_def)
  have f: "sint (hdr_type (resp_hdr (out_buf (exchanges ?M (seq ?M))))) =
             ctrl_type_val VIRTIO_GPU_RESP_OK_DISPLAY_INFO"
    by (simp add: x ex_replies_def ex_exchange_def ex_hdr_def)
  have r: "sint (hdr_type (resp_hdr (out_buf (exchanges ?M n)))) =
             ctrl_type_val VIRTIO_GPU_RESP_OK_NODATA" if "seq ?M < n" for n
    using that by (simp add: x ex_replies_def ex_exchange_def ex_hdr_def)
  have n: "enabled_scanouts (out_buf (exchanges ?M (seq ?M))) \<noteq> []"
    by (simp add: x en)
  from probe_binds_enabled_scanouts [of ?D ?M "\<lambda>n. 2" ex_cfg, OF b v e f r n]
  obtain m' where c: "?p m' \<and>
      (\<forall>m0 n. bit (fst (scan_pmodes (out_buf (exchanges ?M (seq ?M))) 0 0 m0)) n \<longleftrightarrow>
               n \<in> set (enabled_scanouts (out_buf (exchanges ?M (seq ?M))))) \<and>
      sorted_wrt (<) (enabled_scanouts (out_buf (exchanges ?M (seq ?M)))) \<and>
      seq m' = seq ?M + 3 + length (enabled_scanouts (out_buf (exchanges ?M (seq ?M)))) \<and>
      avail m' = avail ?M @
             [\<lparr>sg_hdr = plain_hdr VIRTIO_GPU_CMD_GET_DISPLAY_INFO,
               sg_cmd = Get_display_info,
               sg_in_length = sizeof_ctrl_hdr, sg_out_length = sizeof_resp_display_info\<rparr>,
              \<lparr>sg_hdr = plain_hdr VIRTIO_GPU_CMD_RESOURCE_CREATE_2D,
               sg_cmd = Resource_create_2d 1 VIRTIO_GPU_FORMAT_B8G8R8X8_UNORM
                          (ucast (word_of_int (VIRTIO_GPU_SIZE_X ex_cfg) :: u16))
                          (ucast (word_of_int (VIRTIO_GPU_SIZE_Y ex_cfg) :: u16)),
               sg_in_length = sizeof_resource_create_2d, sg_out_length = sizeof_ctrl_hdr\<rparr>,
              \<lparr>sg_hdr = plain_hdr VIRTIO_GPU_CMD_RESOURCE_ATTACH_BACKING,
               sg_cmd = Resource_attach_backing 1 1
                          (virt_to_phys ?M (plat_base (dev_uclass_plat ?D)))
                          (plat_size (dev_uclass_plat ?D)) 0,
               sg_in_length = sizeof_resource_attach_backing + sizeof_mem_entry,
               sg_out_length = sizeof_ctrl_hdr\<rparr>] @
             map (\<lambda>i. \<lparr>sg_hdr = plain_hdr VIRTIO_GPU_CMD_SET_SCANOUT,
                         sg_cmd = Set_scanout
                           \<lparr>rect_x = 0, rect_y = 0,
                            rect_width = ucast (word_of_int (VIRTIO_GPU_SIZE_X ex_cfg) :: u16),
                            rect_height = ucast (word_of_int (VIRTIO_GPU_SIZE_Y ex_cfg) :: u16)\<rparr>
                           (of_nat i) 1,
                         sg_in_length = sizeof_set_scanout, sg_out_length = sizeof_ctrl_hdr\<rparr>)
               (enabled_scanouts (out_buf (exchanges ?M (seq ?M))))" ..
  note p = c [THEN conjunct1]
    and s = c [THEN conjunct2, THEN conjunct2, THEN conjunct2, THEN conjunct1]
    and a = c [THEN conjunct2, THEN conjunct2, THEN conjunct2, THEN conjunct2]
  from s have s': "?s m'" by (simp add: x en)
  have d: "plat_base (dev_uclass_plat ?D) = 0x80000000" "plat_size (dev_uclass_plat ?D) = 6553600"
    "virt_to_phys ?M = (\<lambda>a. a)" "avail ?M = []"
    by (simp_all add: ex_dev_def ex_machine_def)
  from a have a': "?a m'"
    by (simp add: x en d plain_hdr_def ex_cfg_def VIRTIO_GPU_FORMAT_B8G8R8X8_UNORM_def
          sizeof_ctrl_hdr_def sizeof_resp_display_info_def sizeof_resource_create_2d_def
          sizeof_resource_attach_backing_def sizeof_mem_entry_def sizeof_set_scanout_def
          VIRTIO_GPU_MAX_SCANOUTS_def)
  show ?thesis by (rule exI [of _ m']) (intro conjI p en s' a')
qed

section \<open>The fence ids of successive requests\<close>


lemma fence_ids_Cons:
  "fence_ids (req_hdr priv type flush # hs) =
   (if flush then fence_id priv # fence_ids hs else fence_ids hs)"
  by (simp add: fence_ids_def req_hdr_def VIRTIO_GPU_FLAG_FENCE_def)

lemma upt_Suc_shift: "[0..<Suc n] = 0 # map Suc [0..<n]"
  by (simp add: upt_conv_Cons map_Suc_upt del: upt_Suc)

lemma do_reqs_headers:
  assumes "do_reqs dev m cs = Some (hs, dev', m')"
  shows "list_all2 (\<lambda>c h. h = \<lparr>hdr_type = word_of_int (ctrl_type_val (call_type c)),
                              hdr_flags = (if call_flush c then VIRTIO_GPU_FLAG_FENCE else 0),
                              hdr_fence_id = (if call_flush c then hdr_fence_id h else 0),
                              hdr_ctx_id = 0, hdr_ring_idx = 0\<rparr>) cs hs \<and>
         fence_ids hs =
           map (\<lambda>j. fence_id (dev_priv dev) + of_nat j) [0..<length (filter call_flush cs)] \<and>
         fence_id (dev_priv dev') = fence_id (dev_priv dev) + of_nat (length (filter call_flush cs))"
  using assms
proof (induction cs arbitrary: dev m hs)
  case Nil
  then show ?case by (simp add: fence_ids_def)
next
  case (Cons c cs)
  from Cons.prems obtain ret hdr out dev1 m1 hs1 where
    d: "virtio_gpu_do_req dev m (call_type c) (call_cmd c) (call_in_size c)
          (call_out_size c) (call_flush c) = Some (ret, hdr, out, dev1, m1)"
    and r: "do_reqs dev1 m1 cs = Some (hs1, dev', m')" and hs: "hs = hdr # hs1"
    by (auto split: option.splits)
  note IH = Cons.IH [OF r]
  from do_req_Some(2,4) [OF d] have
    h: "hdr = req_hdr (dev_priv dev) (call_type c) (call_flush c)"
    and p: "dev_priv dev1 = req_priv (dev_priv dev) (call_flush c)"
    by simp_all
  show ?case
  proof (cases "call_flush c")
    case True
    with p have f1: "fence_id (dev_priv dev1) = fence_id (dev_priv dev) + 1"
      by (simp add: req_priv_def)
    have "fence_ids hs =
            map (\<lambda>j. fence_id (dev_priv dev) + of_nat j)
              [0..<length (filter call_flush (c # cs))]"
      using IH True
      by (simp add: hs h fence_ids_Cons f1 upt_Suc_shift comp_def add.assoc del: upt_Suc)
    moreover from IH True have
      "fence_id (dev_priv dev') =
         fence_id (dev_priv dev) + of_nat (length (filter call_flush (c # cs)))"
      by (simp add: f1 add.assoc)
    moreover from IH True have
      "list_all2 (\<lambda>c h. h = \<lparr>hdr_type = word_of_int (ctrl_type_val (call_type c)),
                              hdr_flags = (if call_flush c then VIRTIO_GPU_FLAG_FENCE else 0),
                              hdr_fence_id = (if call_flush c then hdr_fence_id h else 0),
                              hdr_ctx_id = 0, hdr_ring_idx = 0\<rparr>) (c # cs) hs"
      by (simp add: hs h req_hdr_def)
    ultimately show ?thesis by blast
  next
    case False
    with p have f1: "fence_id (dev_priv dev1) = fence_id (dev_priv dev)" by simp
    have "fence_ids hs = fence_ids hs1"
      using False by (simp add: hs h fence_ids_Cons)
    with IH False show ?thesis
      by (simp add: hs h f1 req_hdr_def)
  qed
qed

lemma fence_ids_increasing:
  assumes "unat (f :: u64) + n \<le> 2 ^ 64"
  shows "sorted_wrt (<) (map (\<lambda>j. f + of_nat j) [0..<n])"
proof -
  have u: "unat (f + of_nat j) = unat f + j" if "j < n" for j
  proof -
    from that assms have "unat f + j < 2 ^ 64" by simp
    then show ?thesis by (simp add: unat_word_ariths unat_of_nat)
  qed
  have "sorted_wrt (\<lambda>i j. f + of_nat i < f + of_nat j) [0..<n]"
  proof (rule sorted_wrt_mono_rel [OF _ sorted_wrt_upt])
    fix i j assume "i \<in> set [0..<n]" "j \<in> set [0..<n]" "i < j"
    then show "f + of_nat i < f + of_nat j"
      by (simp add: word_less_nat_alt u)
  qed
  then show ?thesis by (simp add: sorted_wrt_map)
qed

text \<open>
  Claim C2, amended. In any sequence of calls of \<open>virtio_gpu_do_req\<close> on one device, a
  request without a fence carries \<open>flags = 0\<close> and \<open>fence_id = 0\<close>, and a fenced one the
  fence flag. The fence ids of the fenced requests are the successive values of the
  counter, each the one before plus one modulo \<open>2 ^ 64\<close>; they increase strictly as long
  as the counter does not wrap, that is when the counter before the first call plus the
  number of fenced calls is at most \<open>2 ^ 64\<close>.
\<close>


theorem fence_ids_of_calls:
  assumes "do_reqs dev m cs = Some (hs, dev', m')"
  shows "list_all2 (\<lambda>c h. if call_flush c then hdr_flags h = VIRTIO_GPU_FLAG_FENCE
                          else hdr_flags h = 0 \<and> hdr_fence_id h = 0) cs hs \<and>
         fence_ids hs =
           map (\<lambda>j. fence_id (dev_priv dev) + of_nat j) [0..<length (filter call_flush cs)] \<and>
         (unat (fence_id (dev_priv dev)) + length (filter call_flush cs) \<le> 2 ^ 64 \<longrightarrow>
            sorted_wrt (<) (fence_ids hs))"
proof -
  note h = do_reqs_headers [OF assms]
  from h [THEN conjunct1] have
    "list_all2 (\<lambda>c h. if call_flush c then hdr_flags h = VIRTIO_GPU_FLAG_FENCE
                          else hdr_flags h = 0 \<and> hdr_fence_id h = 0) cs hs"
  proof (rule list_all2_mono)
    fix c h
    assume e: "h = \<lparr>hdr_type = word_of_int (ctrl_type_val (call_type c)),
                     hdr_flags = (if call_flush c then VIRTIO_GPU_FLAG_FENCE else 0),
                     hdr_fence_id = (if call_flush c then hdr_fence_id h else 0),
                     hdr_ctx_id = 0, hdr_ring_idx = 0\<rparr>"
    have "hdr_flags h = (if call_flush c then VIRTIO_GPU_FLAG_FENCE else 0)"
      by (subst e) simp
    moreover have "hdr_fence_id h = (if call_flush c then hdr_fence_id h else 0)"
      by (subst e) simp
    ultimately show "if call_flush c then hdr_flags h = VIRTIO_GPU_FLAG_FENCE
                     else hdr_flags h = 0 \<and> hdr_fence_id h = 0"
      by (simp split: if_splits)
  qed
  moreover note ids = h [THEN conjunct2, THEN conjunct1]
  moreover have "sorted_wrt (<) (fence_ids hs)"
    if "unat (fence_id (dev_priv dev)) + length (filter call_flush cs) \<le> 2 ^ 64"
    unfolding ids using that by (rule fence_ids_increasing)
  ultimately show ?thesis by blast
qed

theorem fence_ids_of_calls_witness:
  "\<exists>hs dev' m'.
     do_reqs (ex_dev False 1 5) (ex_machine (ex_replies [] []))
       [ex_call True, ex_call False, ex_call True] = Some (hs, dev', m') \<and>
     map hdr_flags hs = [1, 0, 1] \<and> map hdr_fence_id hs = [5, 0, 6] \<and>
     fence_ids hs = [5, 6] \<and> sorted_wrt (<) (fence_ids hs)"
proof -
  let ?r = "do_reqs (ex_dev False 1 5) (ex_machine (ex_replies [] []))
              [ex_call True, ex_call False, ex_call True]"
  have "map_option (\<lambda>(hs, dev', m'). (map hdr_flags hs, map hdr_fence_id hs)) ?r =
        Some ([1, 0, 1], [5, 0, 6])"
    by code_simp
  then obtain hs dev' m' where r: "?r = Some (hs, dev', m')"
    and f: "map hdr_flags hs = [1, 0, 1]" and i: "map hdr_fence_id hs = [5, 0, 6]"
    by auto
  from fence_ids_of_calls [OF r] have
    a: "fence_ids hs = [5, 6]" and b: "sorted_wrt (<) (fence_ids hs)"
    by (simp_all add: ex_call_def ex_dev_def upt_rec [of 0] upt_rec [of 1])
  show ?thesis
    by (rule exI [of _ hs], rule exI [of _ dev'], rule exI [of _ m']) (intro conjI r f i a b)
qed

text \<open>
  With the counter at its last value, two fenced requests in a row carry the ids
  \<open>2 ^ 64 - 1\<close> and 0: the second is not greater than the first.
\<close>


theorem fence_ids_of_calls_counterexample:
  "map_option (fence_ids \<circ> fst)
     (do_reqs (ex_dev False 1 0xFFFFFFFFFFFFFFFF) (ex_machine (ex_replies [] []))
        [ex_call True, ex_call True])
   = Some [0xFFFFFFFFFFFFFFFF, 0] \<and>
   \<not> sorted_wrt (<) [0xFFFFFFFFFFFFFFFF, 0 :: u64]"
  by code_simp

text \<open>
  The counter of a freshly allocated device, 0, is at that last value after
  \<open>2 ^ 64 - 1\<close> fenced requests.
\<close>


lemma do_reqs_replicate:
  assumes "\<And>n. add_errno (exchanges m n) \<noteq> 0 \<or> get_buf (exchanges m n) (k n) \<noteq> None"
  shows "\<exists>hs dev' m'. do_reqs dev m (replicate n c) = Some (hs, dev', m')"
  using assms
proof (induction n arbitrary: dev m)
  case 0
  then show ?case by simp
next
  case (Suc n)
  obtain m1 where
    d: "virtio_gpu_do_req dev m (call_type c) (call_cmd c) (call_in_size c) (call_out_size c)
          (call_flush c) =
        Some (exchange_ret (exchanges m (seq m)), req_hdr (dev_priv dev) (call_type c) (call_flush c),
              out_buf (exchanges m (seq m)),
              dev\<lparr>dev_priv := req_priv (dev_priv dev) (call_flush c)\<rparr>, m1)"
    and ss: "same_surroundings m m1"
    using do_req_ends [OF Suc.prems [of "seq m"]] by blast
  from ss have x: "exchanges m1 = exchanges m" by (simp add: same_surroundings_def)
  have "\<exists>hs dev' m'. do_reqs (dev\<lparr>dev_priv := req_priv (dev_priv dev) (call_flush c)\<rparr>) m1
           (replicate n c) = Some (hs, dev', m')"
    by (rule Suc.IH) (use Suc.prems x in simp)
  with d show ?case by auto
qed

lemma fence_id_reaches_max:
  "\<exists>hs dev' m'.
     do_reqs (ex_dev False 1 0) (ex_machine (ex_replies [] []))
       (replicate (2 ^ 64 - 1) (ex_call True)) = Some (hs, dev', m') \<and>
     fence_id (dev_priv dev') = 0xFFFFFFFFFFFFFFFF"
proof -
  have "\<exists>hs dev' m'. do_reqs (ex_dev False 1 0) (ex_machine (ex_replies [] []))
          (replicate (2 ^ 64 - 1) (ex_call True)) = Some (hs, dev', m')"
    by (rule do_reqs_replicate [where k = "\<lambda>n. 2"])
       (simp add: ex_machine_def ex_replies_def ex_exchange_def)
  then obtain hs dev' m' where
    r: "do_reqs (ex_dev False 1 0) (ex_machine (ex_replies [] []))
          (replicate (2 ^ 64 - 1) (ex_call True)) = Some (hs, dev', m')"
    by blast
  from do_reqs_headers [OF r, THEN conjunct2, THEN conjunct2]
  have "fence_id (dev_priv dev') = 0xFFFFFFFFFFFFFFFF"
    by (simp add: ex_dev_def ex_call_def)
  with r show ?thesis by blast
qed

section \<open>The size reserved at bind\<close>

lemma probe_resource_create_2d_geometry:
  assumes "probe_resource_create_2d cfg dev m scanout_mask = Some (ret, dev', m')"
  shows "dev_uclass_priv dev' =
           (dev_uclass_priv dev)
             \<lparr>xsize := word_of_int (VIRTIO_GPU_SIZE_X cfg),
              ysize := word_of_int (VIRTIO_GPU_SIZE_Y cfg),
              bpix := VIDEO_BPP32\<rparr>"
proof -
  let ?m1 = "m\<lparr>live := brk m # live m, brk := Suc (brk m)\<rparr>"
  let ?dev1 = "dev\<lparr>dev_uclass_priv := (dev_uclass_priv dev)
            \<lparr>xsize := word_of_int (VIRTIO_GPU_SIZE_X cfg),
             ysize := word_of_int (VIRTIO_GPU_SIZE_Y cfg),
             bpix := VIDEO_BPP32\<rparr>, dev_priv := (dev_priv dev)\<lparr>scanout_res_id := 1\<rparr>\<rparr>"
  let ?c = "Resource_create_2d 1 VIRTIO_GPU_FORMAT_B8G8R8X8_UNORM
              (ucast (word_of_int (VIRTIO_GPU_SIZE_X cfg) :: u16))
              (ucast (word_of_int (VIRTIO_GPU_SIZE_Y cfg) :: u16))"
  from assms obtain r h out dev2 m2 where
    d: "virtio_gpu_do_req ?dev1 ?m1 VIRTIO_GPU_CMD_RESOURCE_CREATE_2D ?c
          sizeof_resource_create_2d sizeof_ctrl_hdr False
        = Some (r, h, out, dev2, m2)"
    by (auto simp: probe_resource_create_2d_def malloc_def Let_def split: option.splits)
  from do_req_unfenced [OF d] have m2: "dev2 = ?dev1" .
  show ?thesis
  proof (cases "r \<noteq> ctrl_type_val VIRTIO_GPU_RESP_OK_NODATA")
    case True
    with assms d m2 show ?thesis
      by (auto simp: probe_resource_create_2d_def malloc_def Let_def free_def log_msg_def
          out_free_res_create_2d_def out_free_disp_def split: option.splits)
  next
    case False
    with assms d have
      "probe_attach_backing dev2 (free (Some (brk m)) m2) scanout_mask = Some (ret, dev', m')"
      by (auto simp: probe_resource_create_2d_def malloc_def Let_def split: option.splits)
    from probe_attach_backing_Some [OF this] m2 show ?thesis by simp
  qed
qed

lemma probe_success_geometry:
  assumes p: "virtio_gpu_probe cfg dev m = Some (0, dev', m')"
  shows "dev_uclass_priv dev' =
           (dev_uclass_priv dev)
             \<lparr>xsize := word_of_int (VIRTIO_GPU_SIZE_X cfg),
              ysize := word_of_int (VIRTIO_GPU_SIZE_Y cfg),
              bpix := VIDEO_BPP32\<rparr>"
proof -
  have base: "plat_base (dev_uclass_plat dev) \<noteq> 0"
    using p by (auto simp: virtio_gpu_probe_def EINVAL_def)
  have vqs: "\<not> find_vqs_ret m < 0"
    using p base by (auto simp: virtio_gpu_probe_def virtio_find_vqs_def)
  let ?dev1 = "dev\<lparr>dev_priv := (dev_priv dev)\<lparr>vq := Some (find_vqs_vq m)\<rparr>\<rparr>"
  let ?m1 = "m\<lparr>live := brk m # live m, brk := Suc (brk m)\<rparr>"
  let ?p = "Some (brk m)"
  from p base vqs obtain r h out dev2 m2 where
    d: "virtio_gpu_do_req ?dev1 ?m1 VIRTIO_GPU_CMD_GET_DISPLAY_INFO Get_display_info
          sizeof_ctrl_hdr sizeof_resp_display_info False = Some (r, h, out, dev2, m2)"
    by (auto simp: virtio_gpu_probe_def virtio_find_vqs_def malloc_def split: option.splits)
  from do_req_unfenced [OF d] have d2: "dev2 = ?dev1" .
  have ok: "r = ctrl_type_val VIRTIO_GPU_RESP_OK_DISPLAY_INFO"
  proof (rule ccontr)
    assume "r \<noteq> ctrl_type_val VIRTIO_GPU_RESP_OK_DISPLAY_INFO"
    with p base vqs d show False
      by (auto simp: virtio_gpu_probe_def virtio_find_vqs_def malloc_def out_free_disp_def
            EINVAL_def)
  qed
  let ?k = "fst (scan_pmodes out 0 0 m2)" and ?m3 = "snd (scan_pmodes out 0 0 m2)"
  have nz: "?k \<noteq> 0"
  proof
    assume "?k = 0"
    with p base vqs d ok show False
      by (auto simp: virtio_gpu_probe_def virtio_find_vqs_def malloc_def out_free_disp_def
            EINVAL_def split_def Let_def)
  qed
  from p base vqs d ok nz have
    "probe_resource_create_2d cfg dev2 (free ?p ?m3) ?k = Some (0, dev', m')"
    by (simp add: virtio_gpu_probe_def virtio_find_vqs_def malloc_def split_def Let_def)
  from probe_resource_create_2d_geometry [OF this] d2 show ?thesis by simp
qed

text \<open>
  Claim C9, amended. \<open>virtio_gpu_bind\<close> requests the horizontal size squared times 4,
  reduced to the 32 bits of the field, not the horizontal size times the vertical size
  times 4. Where the horizontal size is positive, its square times 4 fits in 32 bits, and
  the width and the height that bring-up reports in the 16-bit fields \<open>xsize\<close> and
  \<open>ysize\<close> differ, the requested size is not the width times height times depth of the
  geometry a successful bring-up reports.
\<close>

theorem bind_size:
  "plat_size (dev_uclass_plat (snd (virtio_gpu_bind cfg dev))) =
     word_of_int (VIRTIO_GPU_SIZE_X cfg * VIRTIO_GPU_SIZE_X cfg * 4) \<and>
   (virtio_gpu_probe cfg dev2 m = Some (0, dev', m') \<longrightarrow>
    0 < VIRTIO_GPU_SIZE_X cfg \<longrightarrow>
    VIRTIO_GPU_SIZE_X cfg * VIRTIO_GPU_SIZE_X cfg * 4 < 2 ^ 32 \<longrightarrow>
    xsize (dev_uclass_priv dev') \<noteq> ysize (dev_uclass_priv dev') \<longrightarrow>
    uint (plat_size (dev_uclass_plat (snd (virtio_gpu_bind cfg dev)))) \<noteq>
      geometry_bytes (dev_uclass_priv dev'))"
proof -
  let ?X = "VIRTIO_GPU_SIZE_X cfg" and ?Y = "VIRTIO_GPU_SIZE_Y cfg"
  let ?sz = "plat_size (dev_uclass_plat (snd (virtio_gpu_bind cfg dev)))"
  have v: "VNBYTES VIDEO_BPP32 = 4" by (simp add: VNBYTES_def)
  have u: "uint (word_of_int z :: u32) = z" if "0 \<le> z" "z < 2 ^ 32" for z
    using that by (simp add: uint_word_of_int take_bit_int_eq_self)
  have sz: "?sz = word_of_int (?X * ?X * 4)"
    by (simp add: virtio_gpu_bind_def v Let_def)
  moreover have "uint ?sz \<noteq> geometry_bytes (dev_uclass_priv dev')"
    if p: "virtio_gpu_probe cfg dev2 m = Some (0, dev', m')"
      and pos: "0 < ?X" and fit: "?X * ?X * 4 < 2 ^ 32"
      and ne: "xsize (dev_uclass_priv dev') \<noteq> ysize (dev_uclass_priv dev')"
  proof -
    note g = probe_success_geometry [OF p]
    have x: "xsize (dev_uclass_priv dev') = word_of_int ?X"
      and b: "bpix (dev_uclass_priv dev') = VIDEO_BPP32"
      by (simp_all add: g)
    have "?X * ?X < 2 ^ 30" using fit by simp
    moreover have "2 ^ 16 * 2 ^ 16 \<le> ?X * ?X" if "2 ^ 16 \<le> ?X"
      using that by (intro mult_mono) simp_all
    ultimately have small: "?X < 2 ^ 16" by (rule_tac ccontr) simp
    from pos small have ux: "uint (xsize (dev_uclass_priv dev')) = ?X"
      unfolding x by (simp add: uint_word_of_int take_bit_int_eq_self)
    from ne have "uint (ysize (dev_uclass_priv dev')) \<noteq> uint (xsize (dev_uclass_priv dev'))"
      by (simp add: word_uint_eq_iff)
    with ux have ny: "uint (ysize (dev_uclass_priv dev')) \<noteq> ?X" by simp
    have "0 \<le> ?X * ?X * 4" by simp
    then have "uint ?sz = ?X * ?X * 4"
      unfolding sz using fit by (rule u)
    moreover have "geometry_bytes (dev_uclass_priv dev') =
                   ?X * uint (ysize (dev_uclass_priv dev')) * 4"
      by (simp add: geometry_bytes_def ux b v)
    ultimately show ?thesis using pos ny by simp
  qed
  ultimately show ?thesis by blast
qed

theorem bind_size_witness:
  "\<exists>dev' m'.
     virtio_gpu_probe ex_cfg (ex_dev False 0 0) (ex_machine (ex_replies [0x1101] [0])) =
       Some (0, dev', m') \<and>
     plat_size (dev_uclass_plat (snd (virtio_gpu_bind ex_cfg (ex_dev False 0 0)))) = 6553600 \<and>
     geometry_bytes (dev_uclass_priv dev') = 5242880 \<and>
     uint (plat_size (dev_uclass_plat (snd (virtio_gpu_bind ex_cfg (ex_dev False 0 0))))) \<noteq>
       geometry_bytes (dev_uclass_priv dev')"
proof -
  let ?p = "virtio_gpu_probe ex_cfg (ex_dev False 0 0) (ex_machine (ex_replies [0x1101] [0]))"
  have "map_option (\<lambda>(ret, dev', m').
          (ret, xsize (dev_uclass_priv dev'), ysize (dev_uclass_priv dev'),
           geometry_bytes (dev_uclass_priv dev'))) ?p = Some (0, 1280, 1024, 5242880)"
    by code_simp
  then obtain dev' m' where r: "?p = Some (0, dev', m')"
    and xs: "xsize (dev_uclass_priv dev') = 1280" and ys: "ysize (dev_uclass_priv dev') = 1024"
    and g: "geometry_bytes (dev_uclass_priv dev') = 5242880"
    by auto
  note th = bind_size [of ex_cfg "ex_dev False 0 0" "ex_dev False 0 0"
                         "ex_machine (ex_replies [0x1101] [0])" dev' m']
  have s: "plat_size (dev_uclass_plat (snd (virtio_gpu_bind ex_cfg (ex_dev False 0 0)))) = 6553600"
    using th [THEN conjunct1] by (simp add: ex_cfg_def)
  have n: "uint (plat_size (dev_uclass_plat (snd (virtio_gpu_bind ex_cfg (ex_dev False 0 0))))) \<noteq>
           geometry_bytes (dev_uclass_priv dev')"
    using th [THEN conjunct2, rule_format, OF r] xs ys by (simp add: ex_cfg_def)
  show ?thesis by (rule exI [of _ dev'], rule exI [of _ m']) (intro conjI r s g n)
qed

text \<open>
  Three configurations whose two sizes differ and where the requested size is the
  reported width times height times depth all the same: a width of zero (both are 0); a
  height of 66816, reported in 16 bits as 1280, with a width of 1280 (both are 6553600);
  and a width of 32768, whose square times 4 wraps to 0, with a height of 0 (both are 0).
\<close>

theorem bind_size_counterexample:
  "VIRTIO_GPU_SIZE_X ex_cfg_zero_width \<noteq> VIRTIO_GPU_SIZE_Y ex_cfg_zero_width \<and>
   map_option fst
     (virtio_gpu_probe ex_cfg_zero_width (ex_dev False 0 0) (ex_machine (ex_replies [0x1101] [0])))
   = Some 0 \<and>
   map_option (geometry_bytes \<circ> dev_uclass_priv \<circ> fst \<circ> snd)
     (virtio_gpu_probe ex_cfg_zero_width (ex_dev False 0 0) (ex_machine (ex_replies [0x1101] [0])))
   = Some 0 \<and>
   uint (plat_size (dev_uclass_plat (snd (virtio_gpu_bind ex_cfg_zero_width (ex_dev False 0 0)))))
   = 0 \<and>
   VIRTIO_GPU_SIZE_X ex_cfg_tall \<noteq> VIRTIO_GPU_SIZE_Y ex_cfg_tall \<and>
   map_option fst
     (virtio_gpu_probe ex_cfg_tall (ex_dev False 0 0) (ex_machine (ex_replies [0x1101] [0])))
   = Some 0 \<and>
   map_option (geometry_bytes \<circ> dev_uclass_priv \<circ> fst \<circ> snd)
     (virtio_gpu_probe ex_cfg_tall (ex_dev False 0 0) (ex_machine (ex_replies [0x1101] [0])))
   = Some 6553600 \<and>
   uint (plat_size (dev_uclass_plat (snd (virtio_gpu_bind ex_cfg_tall (ex_dev False 0 0)))))
   = 6553600 \<and>
   VIRTIO_GPU_SIZE_X ex_cfg_wide \<noteq> VIRTIO_GPU_SIZE_Y ex_cfg_wide \<and>
   map_option fst
     (virtio_gpu_probe ex_cfg_wide (ex_dev False 0 0) (ex_machine (ex_replies [0x1101] [0])))
   = Some 0 \<and>
   map_option (geometry_bytes \<circ> dev_uclass_priv \<circ> fst \<circ> snd)
     (virtio_gpu_probe ex_cfg_wide (ex_dev False 0 0) (ex_machine (ex_replies [0x1101] [0])))
   = Some 0 \<and>
   uint (plat_size (dev_uclass_plat (snd (virtio_gpu_bind ex_cfg_wide (ex_dev False 0 0)))))
   = 0"
  by code_simp

end
